theory Spec2Isabelle
  imports Main "HOL-Library.Multiset" "HOL-Library.AList"
begin

section \<open>Todoist completed tasks: the fetch-group-render pipeline\<close>

text \<open>
  The repository holds two revisions of the plugin's one module. \<^verbatim>\<open>src/main.ts\<close> talks to
  the Sync API v9 (\<^verbatim>\<open>sync/v9/sync\<close>, \<^verbatim>\<open>sync/v9/activity/get\<close>) and filters the activity
  events by day itself; the other file talks to the API v1 (\<^verbatim>\<open>api/v1/projects\<close>,
  \<^verbatim>\<open>api/v1/tasks/completed/by_completion_date\<close>), sends the day as a since/until window
  and reads the note's date with a configurable format. Functions of the first revision
  carry the suffix \<open>_v9\<close>, those of the second the suffix \<open>_v1\<close>; steps 3 and 4 of
  \<^verbatim>\<open>fetchAndFormatTasksForDate\<close> (grouping, ordering, rendering) are the same code in both
  up to the names of the fields read, and are modelled once, over the field accessors.
\<close>

subsection \<open>JavaScript values\<close>

text \<open>
  A string field that may be \<^verbatim>\<open>null\<close> or \<^verbatim>\<open>undefined\<close> at run time is a
  \<open>string option\<close>. A string is truthy iff it is not empty; \<^verbatim>\<open>null\<close> is falsy.
\<close>

definition truthy :: "string option \<Rightarrow> bool" where
  "truthy v = (case v of None \<Rightarrow> False | Some s \<Rightarrow> s \<noteq> [])"

text \<open>\<^verbatim>\<open>x || null\<close>\<close>

definition or_null :: "string option \<Rightarrow> string option" where
  "or_null v = (if truthy v then v else None)"

definition nl :: string where
  "nl = [CHR 0x0A]"

text \<open>The decimal text of a number inside a template literal.\<close>

fun digits :: "nat \<Rightarrow> string" where
  "digits n = (if n < 10 then [char_of (48 + n)] else digits (n div 10) @ [char_of (48 + n mod 10)])"

declare digits.simps [simp del]

subsection \<open>Payload records\<close>

text \<open>
  Only the fields the code reads are kept. \<open>project_id\<close> is declared \<^verbatim>\<open>string\<close> in
  \<^verbatim>\<open>TodoistCompletedTask\<close>, but the record is an unchecked cast of the response's JSON and
  the code tests the field for falsiness, so \<^verbatim>\<open>null\<close> is admitted.
\<close>

record TodoistProject =
  id_project :: string
  name :: string
  color :: string

record TodoistCompletedTask =
  id_task :: string
  project_id :: "string option"
  content :: string

subsection \<open>Step 3: grouping by project id\<close>

text \<open>
  \<^verbatim>\<open>tasksByProject\<close> is a JavaScript \<^verbatim>\<open>Map\<close>: its entries are kept in the order of first
  insertion, and \<^verbatim>\<open>set\<close> on a key already there keeps the entry's place. That is an
  association list under \<^const>\<open>AList.update\<close>. The accessor \<open>pid\<close> reads the task's
  project id field (\<^verbatim>\<open>parent_project_id\<close> or \<^verbatim>\<open>project_id\<close>).
\<close>

type_synonym 't groups = "(string option \<times> 't list) list"

definition groupTask :: "('t \<Rightarrow> string option) \<Rightarrow> 't groups \<Rightarrow> 't \<Rightarrow> 't groups" where
  "groupTask pid m task =
     (let projectId = or_null (pid task);
          m1 = (if map_of m projectId = None then AList.update projectId [] m else m)
      in case map_of m1 projectId of
           None \<Rightarrow> m1
         | Some ts \<Rightarrow> AList.update projectId (ts @ [task]) m1)"

definition tasksByProject :: "('t \<Rightarrow> string option) \<Rightarrow> 't list \<Rightarrow> 't groups" where
  "tasksByProject pid tasks = foldl (groupTask pid) [] tasks"

subsection \<open>Step 4: ordering the groups\<close>

text \<open>
  The comparator handed to \<^verbatim>\<open>Array.prototype.sort\<close>. \<open>lc\<close> is
  \<^verbatim>\<open>String.prototype.localeCompare\<close>, which belongs to the host and is a parameter here.
\<close>

definition sortName :: "(string \<rightharpoonup> string) \<Rightarrow> string option \<Rightarrow> string" where
  "sortName projects a =
     (if truthy a
      then (case projects (the a) of Some n \<Rightarrow> n | None \<Rightarrow> ''Unknown Project'')
      else ''No Project'')"

definition compareProjectIds ::
  "(string \<Rightarrow> string \<Rightarrow> int) \<Rightarrow> (string \<rightharpoonup> string) \<Rightarrow> string option \<Rightarrow> string option \<Rightarrow> int" where
  "compareProjectIds lc projects a b =
     (let nameA = sortName projects a; nameB = sortName projects b
      in if a = None then 1
         else if b = None then - 1
         else lc nameA nameB)"

text \<open>
  \<^verbatim>\<open>Array.prototype.sort\<close> is stable. It is modelled by the stable insertion sort: the
  elements are taken from left to right and each goes in front of the first element it
  is smaller than.
\<close>

fun insort_cmp :: "('a \<Rightarrow> 'a \<Rightarrow> int) \<Rightarrow> 'a \<Rightarrow> 'a list \<Rightarrow> 'a list" where
  "insort_cmp c x [] = [x]"
| "insort_cmp c x (y # ys) = (if c x y < 0 then x # y # ys else y # insort_cmp c x ys)"

definition sort_cmp :: "('a \<Rightarrow> 'a \<Rightarrow> int) \<Rightarrow> 'a list \<Rightarrow> 'a list" where
  "sort_cmp c xs = foldl (\<lambda>acc x. insort_cmp c x acc) [] xs"

definition sortedProjectIds ::
  "(string \<Rightarrow> string \<Rightarrow> int) \<Rightarrow> (string \<rightharpoonup> string) \<Rightarrow> 't groups \<Rightarrow> string option list" where
  "sortedProjectIds lc projects m = sort_cmp (compareProjectIds lc projects) (map fst m)"

subsection \<open>Step 4: rendering\<close>

text \<open>The text after \<^verbatim>\<open>###\<close> in a group's subheading: the three branches of the loop body.\<close>

definition displayName :: "(string \<rightharpoonup> string) \<Rightarrow> string option \<Rightarrow> string" where
  "displayName projects projectId =
     (let projectName = (if truthy projectId then projects (the projectId) else None)
      in if truthy projectName then the projectName
         else if projectId = None then ''No Project''
         else ''Unknown Project (ID: '' @ the projectId @ '')'')"

definition projectTasks :: "'t groups \<Rightarrow> string option \<Rightarrow> 't list" where
  "projectTasks m projectId = (case map_of m projectId of Some ts \<Rightarrow> ts | None \<Rightarrow> [])"

text \<open>
  One list item. \<open>tid\<close> reads the task's id, \<open>tcontent\<close> its content
  (\<^verbatim>\<open>extra_data?.content\<close> or \<^verbatim>\<open>content\<close>).
\<close>

definition taskLine :: "('t \<Rightarrow> string) \<Rightarrow> ('t \<Rightarrow> string option) \<Rightarrow> 't \<Rightarrow> string" where
  "taskLine tid tcontent task =
     (let taskId = tid task;
          taskContent = (if truthy (tcontent task) then the (tcontent task) else ''Task ID '' @ taskId);
          taskUrl = ''https://todoist.com/showTask?id='' @ taskId
      in ''- ['' @ taskContent @ '']('' @ taskUrl @ '')'' @ nl)"

definition groupBlock ::
  "('t \<Rightarrow> string) \<Rightarrow> ('t \<Rightarrow> string option) \<Rightarrow> (string \<rightharpoonup> string) \<Rightarrow> 't groups \<Rightarrow> string option \<Rightarrow> string" where
  "groupBlock tid tcontent projects m projectId =
     ''### '' @ displayName projects projectId @ nl
     @ concat (map (taskLine tid tcontent) (projectTasks m projectId))
     @ nl"

text \<open>The groups in the order of the rendering loop, each with the tasks listed under it.\<close>

definition outputGroups ::
  "(string \<Rightarrow> string \<Rightarrow> int) \<Rightarrow> (string \<rightharpoonup> string) \<Rightarrow> ('t \<Rightarrow> string option) \<Rightarrow> 't list \<Rightarrow> 't groups" where
  "outputGroups lc projects pid tasks =
     (let m = tasksByProject pid tasks
      in map (\<lambda>projectId. (projectId, projectTasks m projectId)) (sortedProjectIds lc projects m))"

definition markdownOutput ::
  "(string \<Rightarrow> string \<Rightarrow> int) \<Rightarrow> ('t \<Rightarrow> string option) \<Rightarrow> ('t \<Rightarrow> string) \<Rightarrow> ('t \<Rightarrow> string option)
     \<Rightarrow> (string \<rightharpoonup> string) \<Rightarrow> string \<Rightarrow> 't list \<Rightarrow> string" where
  "markdownOutput lc pid tid tcontent projects friendlyDateString tasks =
     (let m = tasksByProject pid tasks
      in ''## Tasks Completed '' @ friendlyDateString @ nl @ nl
         @ concat (map (groupBlock tid tcontent projects m) (sortedProjectIds lc projects m)))"

subsection \<open>Time\<close>

text \<open>
  A moment or a \<^verbatim>\<open>Date\<close> is the instant it denotes, in milliseconds since the epoch
  (\<^verbatim>\<open>valueOf()\<close>). A moment in UTC mode has offset 0; a moment in local mode has the
  offset of the observer's zone, taken as fixed: on the day of a daylight saving change
  moment's start or end of the day is an hour off the model's.
  \<^verbatim>\<open>this.isSame(input, 'day')\<close> is moment's
  \<^verbatim>\<open>this.clone().startOf('day') <= input <= this.clone().endOf('day')\<close> on instants, with
  the day taken in the mode of \<^verbatim>\<open>this\<close>: where the two moments differ in their zones,
  that of the first is used.
\<close>

type_synonym instant = int

definition msPerDay :: int where
  "msPerDay = 86400000"

text \<open>The calendar day of an instant, as a day number, in the zone of the given offset.\<close>

definition dayOf :: "int \<Rightarrow> instant \<Rightarrow> int" where
  "dayOf off t = (t + off) div msPerDay"

definition startOfDay :: "int \<Rightarrow> instant \<Rightarrow> instant" where
  "startOfDay off t = dayOf off t * msPerDay - off"

definition endOfDay :: "int \<Rightarrow> instant \<Rightarrow> instant" where
  "endOfDay off t = startOfDay off t + msPerDay - 1"

definition isSame_day :: "int \<Rightarrow> instant \<Rightarrow> instant \<Rightarrow> bool" where
  "isSame_day off this input = (startOfDay off this \<le> input \<and> input \<le> endOfDay off this)"

text \<open>
  What the code takes from its host: the clock (\<^verbatim>\<open>moment()\<close>; one reading for the whole
  run), the zone, \<^verbatim>\<open>localeCompare\<close>, and of moment's pattern language what is not
  modelled below: \<open>moment_format host f t\<close> is \<^verbatim>\<open>m.format(f)\<close> of the local moment at
  \<open>t\<close>, and \<open>moment_strict host s f\<close> is \<^verbatim>\<open>moment(s, f, true)\<close> for a pattern \<open>f\<close>
  other than those of \<open>momentStrict\<close>, the instant if the result \<^verbatim>\<open>isValid()\<close> and
  \<open>None\<close> if not.
\<close>

record host =
  now :: instant
  utcOffset :: int
  localeCompare :: "string \<Rightarrow> string \<Rightarrow> int"
  moment_format :: "string \<Rightarrow> instant \<Rightarrow> string"
  moment_strict :: "string \<Rightarrow> string \<Rightarrow> instant option"

subsection \<open>Requests, responses, effects\<close>

text \<open>
  A request is its URL's endpoint and parameters, with the bearer token of its header:
  \<^item> \<open>SyncProjects token\<close>:
    \<^verbatim>\<open>api.todoist.com/sync/v9/sync?sync_token=*&resource_types=["projects"]\<close>
  \<^item> \<open>ActivityGet token limit\<close>:
    \<^verbatim>\<open>api.todoist.com/sync/v9/activity/get?object_type=item&event_type=completed&limit=\<close>
  \<^item> \<open>GetProjects token limit cursor\<close>: \<^verbatim>\<open>todoist.com/api/v1/projects?limit=\<close>
  \<^item> \<open>CompletedByDate token since until limit cursor\<close>:
    \<^verbatim>\<open>todoist.com/api/v1/tasks/completed/by_completion_date?since=&until=&limit=\<close>
  The code never sends a cursor; the parameter is there for the service's other pages.
\<close>

datatype request =
    SyncProjects string
  | ActivityGet string nat
  | GetProjects string nat "string option"
  | CompletedByDate string instant instant nat "string option"

text \<open>\<^verbatim>\<open>response.json\<close>: the getter throws on a body that is not JSON.\<close>

datatype 'a body = BodyThrows string | BodyNull | Body 'a

record 'a response =
  status :: nat
  text_resp :: string
  json :: "'a body"

text \<open>
  \<^verbatim>\<open>requestUrl\<close> at the project endpoint and at the completed-task endpoint; \<open>Inl msg\<close>
  is a rejected promise with that error message.
\<close>

record ('p, 'c) service =
  requestUrl_projects :: "request \<Rightarrow> string + 'p response"
  requestUrl_completed :: "request \<Rightarrow> string + 'c response"

datatype effect =
    Notice string
  | ConsoleError string
  | Request request
  | ReplaceSelection string

text \<open>The requests among the effects of a run, in order.\<close>

fun requests :: "effect list \<Rightarrow> request list" where
  "requests [] = []"
| "requests (Request r # es) = r # requests es"
| "requests (_ # es) = requests es"

record TodoistCompletedTasksSettings =
  todoistApiToken :: string
  dailyNoteFormat :: string

text \<open>The payloads. A list field is \<open>None\<close> when the property is missing or null.\<close>

record sync_data =
  sync_projects :: "TodoistProject list option"

datatype timestamp = Missing | Unparseable | At instant

text \<open>
  An activity event (\<^verbatim>\<open>any\<close> in the source). \<open>event_date\<close> is \<open>Missing\<close> when the
  field is falsy, \<open>Unparseable\<close> when \<^verbatim>\<open>moment.utc\<close> makes an invalid moment of it, and
  the instant otherwise. \<open>extra_content\<close> is \<^verbatim>\<open>extra_data?.content\<close>.
\<close>

record activity_event =
  event_date :: timestamp
  parent_project_id :: "string option"
  object_id :: string
  extra_content :: "string option"

record activity_data =
  events :: "activity_event list option"

record TodoistProjectResponse =
  results :: "TodoistProject list option"
  next_cursor :: "string option"

record TodoistCompletedTasksResponse =
  items :: "TodoistCompletedTask list option"
  next_cursor_items :: "string option"

subsection \<open>fetchProjectData\<close>

definition projectsMap :: "TodoistProject list \<Rightarrow> (string \<rightharpoonup> string)" where
  "projectsMap ps = foldl (\<lambda>m project. m(id_project project \<mapsto> name project)) Map.empty ps"

text \<open>The \<^verbatim>\<open>catch\<close> block: log, then throw the wrapped error.\<close>

definition fetchProjectData_catch :: "effect list \<Rightarrow> string \<Rightarrow> effect list \<times> (string + (string \<rightharpoonup> string))" where
  "fetchProjectData_catch es msg =
     (es @ [ConsoleError msg], Inl (''Failed to fetch project data: '' @ msg))"

definition fetchProjectData_v9 ::
  "TodoistCompletedTasksSettings \<Rightarrow> (sync_data, 'c) service
     \<Rightarrow> effect list \<times> (string + (string \<rightharpoonup> string))" where
  "fetchProjectData_v9 settings svc =
     (if todoistApiToken settings = [] then ([], Inl ''Todoist API token is not set.'')
      else
       (let req = SyncProjects (todoistApiToken settings) in
        (case requestUrl_projects svc req of
          Inl msg \<Rightarrow> fetchProjectData_catch [Request req] msg
        | Inr response \<Rightarrow>
            if status response \<noteq> 200
            then fetchProjectData_catch [Request req]
                   (''Todoist Sync API error: '' @ digits (status response) @ '' - '' @ text_resp response)
            else (case json response of
                    BodyThrows msg \<Rightarrow> fetchProjectData_catch [Request req] msg
                  | BodyNull \<Rightarrow> ([Request req], Inr Map.empty)
                  | Body data \<Rightarrow>
                      (case sync_projects data of
                         None \<Rightarrow> ([Request req], Inr Map.empty)
                       | Some ps \<Rightarrow> ([Request req], Inr (projectsMap ps)))))))"

definition fetchProjectData_v1 ::
  "TodoistCompletedTasksSettings \<Rightarrow> (TodoistProjectResponse, 'c) service
     \<Rightarrow> effect list \<times> (string + (string \<rightharpoonup> string))" where
  "fetchProjectData_v1 settings svc =
     (if todoistApiToken settings = [] then ([], Inl ''Todoist API token is not set.'')
      else
       (let req = GetProjects (todoistApiToken settings) 200 None in
        (case requestUrl_projects svc req of
          Inl msg \<Rightarrow> fetchProjectData_catch [Request req] msg
        | Inr response \<Rightarrow>
            if status response \<noteq> 200
            then fetchProjectData_catch [Request req]
                   (''Todoist Get Projects API error: '' @ digits (status response) @ '' - '' @ text_resp response)
            else (case json response of
                    BodyThrows msg \<Rightarrow> fetchProjectData_catch [Request req] msg
                  | BodyNull \<Rightarrow> ([Request req], Inr Map.empty)
                  | Body data \<Rightarrow>
                      (case results data of
                         None \<Rightarrow> ([Request req], Inr Map.empty)
                       | Some ps \<Rightarrow>
                           (Request req
                              # map (\<lambda>project. Notice (''Project {project.name} as color '' @ color project)) ps,
                            Inr (projectsMap ps)))))))"

subsection \<open>fetchAndFormatTasksForDate\<close>

text \<open>
  From the length test to the return, the same in both revisions: the empty result with
  its notice, or the Markdown with the count notice.
\<close>

definition formatTasks ::
  "host \<Rightarrow> ('t \<Rightarrow> string option) \<Rightarrow> ('t \<Rightarrow> string) \<Rightarrow> ('t \<Rightarrow> string option)
     \<Rightarrow> (string \<rightharpoonup> string) \<Rightarrow> instant \<Rightarrow> 't list \<Rightarrow> effect list \<times> (string + string)" where
  "formatTasks h pid tid tcontent projects targetMoment tasks =
     (let targetDateString = moment_format h ''YYYY-MM-DD'' targetMoment;
          isToday = isSame_day (utcOffset h) targetMoment (now h)
      in if length tasks = 0
         then
           (let friendlyDate = (if isToday then ''today'' else targetDateString)
            in ([Notice (''No tasks completed on '' @ friendlyDate @ '' found in Todoist.'')], Inr []))
         else
           (let friendlyDateString = (if isToday then ''Today'' else targetDateString)
            in ([Notice (''Inserted '' @ digits (length tasks) @ '' tasks completed on ''
                         @ targetDateString @ ''.'')],
                Inr (markdownOutput (localeCompare h) pid tid tcontent projects friendlyDateString tasks))))"

text \<open>The filter of \<^verbatim>\<open>src/main.ts\<close>: the event's moment is in UTC mode.\<close>

definition completedOnDateEvents :: "instant \<Rightarrow> activity_event list \<Rightarrow> activity_event list" where
  "completedOnDateEvents targetMoment evs =
     filter (\<lambda>event. case event_date event of
                        Missing \<Rightarrow> False
                      | Unparseable \<Rightarrow> False
                      | At eventMoment \<Rightarrow> isSame_day 0 eventMoment targetMoment) evs"

definition fetchAndFormatTasksForDate_v9 ::
  "host \<Rightarrow> TodoistCompletedTasksSettings \<Rightarrow> (sync_data, activity_data) service \<Rightarrow> instant
     \<Rightarrow> effect list \<times> (string + string)" where
  "fetchAndFormatTasksForDate_v9 h settings svc targetDate =
     (if todoistApiToken settings = [] then ([], Inl ''Todoist API token is not set.'')
      else
        case fetchProjectData_v9 settings svc of
          (es, Inl msg) \<Rightarrow> (es, Inl msg)
        | (es, Inr projects) \<Rightarrow>
           (let limit = 100;
                req = ActivityGet (todoistApiToken settings) limit;
                es1 = es @ [Request req]
            in (case requestUrl_completed svc req of
                 Inl msg \<Rightarrow> (es1, Inl msg)
               | Inr response \<Rightarrow>
                   if status response \<noteq> 200
                   then (es1, Inl (''Todoist Activity API error: '' @ digits (status response)
                                   @ '' - '' @ text_resp response))
                   else (case json response of
                           BodyThrows msg \<Rightarrow> (es1, Inl msg)
                         | BodyNull \<Rightarrow> (es1, Inl ''Invalid response structure from Todoist Activity API'')
                         | Body data \<Rightarrow>
                             (case events data of
                                None \<Rightarrow> (es1, Inl ''Invalid response structure from Todoist Activity API'')
                              | Some evs \<Rightarrow>
                                  (case formatTasks h parent_project_id object_id extra_content projects
                                          targetDate (completedOnDateEvents targetDate evs) of
                                     (es2, r) \<Rightarrow> (es1 @ es2, r)))))))"

text \<open>
  The other revision: the window of the target day in local time goes into the request,
  and the items of the response are taken as they come.
\<close>

definition fetchAndFormatTasksForDate_v1 ::
  "host \<Rightarrow> TodoistCompletedTasksSettings \<Rightarrow> (TodoistProjectResponse, TodoistCompletedTasksResponse) service
     \<Rightarrow> instant \<Rightarrow> effect list \<times> (string + string)" where
  "fetchAndFormatTasksForDate_v1 h settings svc targetDate =
     (if todoistApiToken settings = [] then ([], Inl ''Todoist API token is not set.'')
      else
        case fetchProjectData_v1 settings svc of
          (es, Inl msg) \<Rightarrow> (es, Inl msg)
        | (es, Inr projects) \<Rightarrow>
           (let sinceDate = startOfDay (utcOffset h) targetDate;
                untilDate = endOfDay (utcOffset h) targetDate;
                limit = 100;
                req = CompletedByDate (todoistApiToken settings) sinceDate untilDate limit None;
                es1 = es @ [Request req]
            in (case requestUrl_completed svc req of
                 Inl msg \<Rightarrow> (es1, Inl msg)
               | Inr response \<Rightarrow>
                   if status response \<noteq> 200
                   then (es1, Inl (''Todoist Activity API error: '' @ digits (status response)
                                   @ '' - '' @ text_resp response))
                   else (case json response of
                           BodyThrows msg \<Rightarrow> (es1, Inl msg)
                         | BodyNull \<Rightarrow>
                             (es1, Inl ''Invalid response structure from Todoist completed tasks API'')
                         | Body data \<Rightarrow>
                             (case items data of
                                None \<Rightarrow>
                                  (es1, Inl ''Invalid response structure from Todoist completed tasks API'')
                              | Some tasks \<Rightarrow>
                                  (case formatTasks h project_id id_task (\<lambda>task. Some (content task))
                                          projects targetDate tasks of
                                     (es2, r) \<Rightarrow> (es1 @ es2, r)))))))"

subsection \<open>Strict parsing of the file name\<close>

text \<open>
  Modelled from the spec: \<^verbatim>\<open>moment(s, f, true)\<close>, which is moment's and not part of the
  repository. The specification words it so: the entire hint must conform to the format,
  with no partial or fuzzy matching. The model covers the patterns that hold the tokens
  \<^verbatim>\<open>YYYY\<close>, \<^verbatim>\<open>MM\<close> and \<^verbatim>\<open>DD\<close>, each exactly once, and beside them only printable
  characters that moment reads as themselves: no letter, bracket or backslash. In strict
  mode these tokens take four, two and two digits, so a name conforms when it is as long as
  the pattern, has a digit wherever the pattern has a date letter and the pattern's own
  character everywhere else. A conforming name is valid when its month and day exist in
  the calendar, and then denotes the local midnight of that date. Any other pattern is
  left to the host's \<open>moment_strict\<close>.
\<close>

definition isDigit :: "char \<Rightarrow> bool" where
  "isDigit c = (48 \<le> (of_char c :: nat) \<and> (of_char c :: nat) \<le> 57)"

definition dateLetter :: "char \<Rightarrow> bool" where
  "dateLetter c = (c = CHR ''Y'' \<or> c = CHR ''M'' \<or> c = CHR ''D'')"

definition plainChar :: "char \<Rightarrow> bool" where
  "plainChar c =
     (let n = (of_char c :: nat)
      in 32 \<le> n \<and> n \<le> 126 \<and> (n < 65 \<or> 90 < n) \<and> (n < 97 \<or> 122 < n)
         \<and> n \<noteq> 91 \<and> n \<noteq> 92 \<and> n \<noteq> 93)"

text \<open>The maximal runs of equal characters, each with its length.\<close>

fun runs :: "string \<Rightarrow> (char \<times> nat) list" where
  "runs [] = []"
| "runs (c # cs) =
     (case runs cs of
        [] \<Rightarrow> [(c, 1)]
      | (d, n) # rs \<Rightarrow> if c = d then (d, Suc n) # rs else (c, 1) # (d, n) # rs)"

definition simplePattern :: "string \<Rightarrow> bool" where
  "simplePattern f =
     (list_all (\<lambda>c. dateLetter c \<or> plainChar c) f
      \<and> filter (\<lambda>r. fst r = CHR ''Y'') (runs f) = [(CHR ''Y'', 4)]
      \<and> filter (\<lambda>r. fst r = CHR ''M'') (runs f) = [(CHR ''M'', 2)]
      \<and> filter (\<lambda>r. fst r = CHR ''D'') (runs f) = [(CHR ''D'', 2)])"

definition conforms :: "string \<Rightarrow> string \<Rightarrow> bool" where
  "conforms f s = list_all2 (\<lambda>p c. if dateLetter p then isDigit c else c = p) f s"

text \<open>The number written at the places where the pattern has the letter \<open>l\<close>.\<close>

definition digitsValue :: "string \<Rightarrow> nat" where
  "digitsValue cs = foldl (\<lambda>n c. 10 * n + (of_char c - 48)) 0 cs"

definition field :: "char \<Rightarrow> string \<Rightarrow> string \<Rightarrow> nat" where
  "field l f s = digitsValue (map snd (filter (\<lambda>pc. fst pc = l) (zip f s)))"

definition isLeapYear :: "nat \<Rightarrow> bool" where
  "isLeapYear y = ((y mod 4 = 0 \<and> y mod 100 \<noteq> 0) \<or> y mod 400 = 0)"

definition daysInMonth :: "nat \<Rightarrow> nat \<Rightarrow> nat" where
  "daysInMonth y m =
     (if m = 2 then (if isLeapYear y then 29 else 28)
      else if m = 4 \<or> m = 6 \<or> m = 9 \<or> m = 11 then 30
      else 31)"

definition validDate :: "nat \<Rightarrow> nat \<Rightarrow> nat \<Rightarrow> bool" where
  "validDate y m d = (1 \<le> m \<and> m \<le> 12 \<and> 1 \<le> d \<and> d \<le> daysInMonth y m)"

text \<open>The day number of a date of the proleptic Gregorian calendar; day 0 is 1970-01-01.\<close>

definition daysFromCivil :: "int \<Rightarrow> int \<Rightarrow> int \<Rightarrow> int" where
  "daysFromCivil y m d =
     (let y1 = (if m \<le> 2 then y - 1 else y);
          era = y1 div 400;
          yoe = y1 - era * 400;
          mp = (if 2 < m then m - 3 else m + 9);
          doy = (153 * mp + 2) div 5 + d - 1;
          doe = yoe * 365 + yoe div 4 - yoe div 100 + doy
      in era * 146097 + doe - 719468)"

definition localMidnight :: "int \<Rightarrow> nat \<Rightarrow> nat \<Rightarrow> nat \<Rightarrow> instant" where
  "localMidnight off y m d = daysFromCivil (int y) (int m) (int d) * msPerDay - off"

definition strictDate :: "int \<Rightarrow> string \<Rightarrow> string \<Rightarrow> instant option" where
  "strictDate off s f =
     (if conforms f s
         \<and> validDate (field (CHR ''Y'') f s) (field (CHR ''M'') f s) (field (CHR ''D'') f s)
      then Some (localMidnight off (field (CHR ''Y'') f s) (field (CHR ''M'') f s)
                   (field (CHR ''D'') f s))
      else None)"

definition momentStrict :: "host \<Rightarrow> string \<Rightarrow> string \<Rightarrow> instant option" where
  "momentStrict h s f =
     (if simplePattern f then strictDate (utcOffset h) s f else moment_strict h s f)"

subsection \<open>fetchAndInsertTasksForView\<close>

text \<open>
  The first block of the function: the target date and the label of its source.
  \<open>basename\<close> is the base name of the view's file, \<open>None\<close> when the view has no file.
  In \<^verbatim>\<open>src/main.ts\<close> the name must match \<^verbatim>\<open>/^(\d{4}-\d{2}-\d{2})$/\<close> first.
\<close>

fun filenameDateMatch :: "string \<Rightarrow> string option" where
  "filenameDateMatch [y1, y2, y3, y4, s1, m1, m2, s2, d1, d2] =
     (if isDigit y1 \<and> isDigit y2 \<and> isDigit y3 \<and> isDigit y4 \<and> s1 = CHR ''-''
         \<and> isDigit m1 \<and> isDigit m2 \<and> s2 = CHR ''-'' \<and> isDigit d1 \<and> isDigit d2
      then Some [y1, y2, y3, y4, s1, m1, m2, s2, d1, d2] else None)"
| "filenameDateMatch _ = None"

definition targetDate_v9 :: "host \<Rightarrow> string option \<Rightarrow> instant \<times> string" where
  "targetDate_v9 h basename =
     (case basename of
        None \<Rightarrow> (now h, ''today'')
      | Some b \<Rightarrow>
          (case filenameDateMatch b of
             None \<Rightarrow> (now h, ''today'')
           | Some g \<Rightarrow>
               (case momentStrict h g ''YYYY-MM-DD'' of
                  None \<Rightarrow> (now h, ''today'')
                | Some parsedDate \<Rightarrow>
                    (parsedDate,
                     ''note filename ('' @ moment_format h ''YYYY-MM-DD'' parsedDate @ '')''))))"

definition targetDate_v1 :: "host \<Rightarrow> TodoistCompletedTasksSettings \<Rightarrow> string option \<Rightarrow> instant \<times> string" where
  "targetDate_v1 h settings basename =
     (case basename of
        None \<Rightarrow> (now h, ''today'')
      | Some b \<Rightarrow>
         (let fmt = (if dailyNoteFormat settings \<noteq> [] then dailyNoteFormat settings else ''YYYY-MM-DD'')
          in (case momentStrict h b fmt of
               None \<Rightarrow> (now h, ''today'')
             | Some parseDate \<Rightarrow>
                 (parseDate, ''note filename ('' @ moment_format h fmt parseDate @ '')''))))"

text \<open>
  The rest of the function, from the token test on: what the run does to its
  surroundings, in order. The \<^verbatim>\<open>catch\<close> block logs and shows a notice.
\<close>

definition insertTasks ::
  "TodoistCompletedTasksSettings \<Rightarrow> string \<Rightarrow> effect list \<times> (string + string) \<Rightarrow> effect list" where
  "insertTasks settings dateSource fetched =
     (if todoistApiToken settings = []
      then [Notice ''Todoist API token is not set. Please configure it in the plugin settings.'']
      else
        Notice (''Fetching Todoist tasks completed for '' @ dateSource @ ''...'')
        # fst fetched
        @ (case snd fetched of
             Inr markdown \<Rightarrow> [ReplaceSelection markdown]
           | Inl msg \<Rightarrow> [ConsoleError msg, Notice (''Error: '' @ msg)]))"

definition fetchAndInsertTasksForView_v9 ::
  "host \<Rightarrow> TodoistCompletedTasksSettings \<Rightarrow> (sync_data, activity_data) service \<Rightarrow> string option
     \<Rightarrow> effect list" where
  "fetchAndInsertTasksForView_v9 h settings svc basename =
     (case targetDate_v9 h basename of
        (targetDate, dateSource) \<Rightarrow>
          insertTasks settings dateSource (fetchAndFormatTasksForDate_v9 h settings svc targetDate))"

definition fetchAndInsertTasksForView_v1 ::
  "host \<Rightarrow> TodoistCompletedTasksSettings \<Rightarrow> (TodoistProjectResponse, TodoistCompletedTasksResponse) service
     \<Rightarrow> string option \<Rightarrow> effect list" where
  "fetchAndInsertTasksForView_v1 h settings svc basename =
     (case targetDate_v1 h settings basename of
        (targetDate, dateSource) \<Rightarrow>
          insertTasks settings dateSource (fetchAndFormatTasksForDate_v1 h settings svc targetDate))"

section \<open>The specification's notions\<close>

text \<open>
  Case-insensitive lexical comparison, as the specification words the order of the
  groups: the strings are compared character by character, letters \<^verbatim>\<open>A\<close> to \<^verbatim>\<open>Z\<close>
  counting as \<^verbatim>\<open>a\<close> to \<^verbatim>\<open>z\<close>. The result is negative, zero or positive, as that of
  \<^verbatim>\<open>localeCompare\<close>.
\<close>

definition lower :: "char \<Rightarrow> nat" where
  "lower c = (let n = of_char c in if 65 \<le> n \<and> n \<le> 90 then n + 32 else n)"

fun lex_compare :: "nat list \<Rightarrow> nat list \<Rightarrow> int" where
  "lex_compare [] [] = 0"
| "lex_compare [] (y # ys) = - 1"
| "lex_compare (x # xs) [] = 1"
| "lex_compare (x # xs) (y # ys) =
     (if x < y then - 1 else if y < x then 1 else lex_compare xs ys)"

definition ci_compare :: "string \<Rightarrow> string \<Rightarrow> int" where
  "ci_compare a b = lex_compare (map lower a) (map lower b)"

text \<open>
  The completed-task fetch fails, as the specification's error taxonomy has it: the
  request is rejected, the status is not 200, the body is not JSON, or the payload is
  null or lacks its list.
\<close>

definition completedFetchFails :: "string + 'c response \<Rightarrow> ('c \<Rightarrow> bool) \<Rightarrow> bool" where
  "completedFetchFails r lacks_list =
     (case r of
        Inl msg \<Rightarrow> True
      | Inr response \<Rightarrow>
          status response \<noteq> 200
          \<or> (case json response of
                BodyThrows msg \<Rightarrow> True
              | BodyNull \<Rightarrow> True
              | Body data \<Rightarrow> lacks_list data))"

text \<open>
  The specification's complete result of a paginated endpoint: the pages are followed
  from the first, each by the continuation cursor of the one before, until a page has
  no cursor. The first argument bounds the number of pages read.
\<close>

fun spec_project_pages ::
  "nat \<Rightarrow> (TodoistProjectResponse, 'c) service \<Rightarrow> string \<Rightarrow> string option \<Rightarrow> TodoistProject list" where
  "spec_project_pages 0 svc token cursor = []"
| "spec_project_pages (Suc n) svc token cursor =
     (case requestUrl_projects svc (GetProjects token 200 cursor) of
        Inl msg \<Rightarrow> []
      | Inr response \<Rightarrow>
          (case json response of
             Body data \<Rightarrow>
               (case results data of Some ps \<Rightarrow> ps | None \<Rightarrow> [])
               @ (case next_cursor data of
                    None \<Rightarrow> []
                  | Some c \<Rightarrow> spec_project_pages n svc token (Some c))
           | _ \<Rightarrow> []))"

fun spec_completed_pages ::
  "nat \<Rightarrow> ('p, TodoistCompletedTasksResponse) service \<Rightarrow> string \<Rightarrow> instant \<Rightarrow> instant
     \<Rightarrow> string option \<Rightarrow> TodoistCompletedTask list" where
  "spec_completed_pages 0 svc token since until cursor = []"
| "spec_completed_pages (Suc n) svc token since until cursor =
     (case requestUrl_completed svc (CompletedByDate token since until 100 cursor) of
        Inl msg \<Rightarrow> []
      | Inr response \<Rightarrow>
          (case json response of
             Body data \<Rightarrow>
               (case items data of Some ts \<Rightarrow> ts | None \<Rightarrow> [])
               @ (case next_cursor_items data of
                    None \<Rightarrow> []
                  | Some c \<Rightarrow> spec_completed_pages n svc token since until (Some c))
           | _ \<Rightarrow> []))"

section \<open>Sample inputs\<close>

text \<open>Three completed tasks, two of one project and one without a project.\<close>

definition task_a :: TodoistCompletedTask where
  "task_a = \<lparr>id_task = ''a'', project_id = Some ''1'', content = ''Write spec''\<rparr>"

definition task_b :: TodoistCompletedTask where
  "task_b = \<lparr>id_task = ''b'', project_id = None, content = ''''\<rparr>"

definition task_c :: TodoistCompletedTask where
  "task_c = \<lparr>id_task = ''c'', project_id = Some ''1'', content = ''Review''\<rparr>"

definition directory_work :: "string \<rightharpoonup> string" where
  "directory_work = [''1'' \<mapsto> ''Work'']"

text \<open>A task whose project id is the empty string.\<close>

definition task_d :: TodoistCompletedTask where
  "task_d = \<lparr>id_task = ''d'', project_id = Some '''', content = ''Pay rent''\<rparr>"

text \<open>Two tasks of projects that the directory does not list.\<close>

definition task_9 :: TodoistCompletedTask where
  "task_9 = \<lparr>id_task = ''e'', project_id = Some ''9'', content = ''Archive notes''\<rparr>"

definition task_10 :: TodoistCompletedTask where
  "task_10 = \<lparr>id_task = ''f'', project_id = Some ''10'', content = ''Close books''\<rparr>"

text \<open>A directory whose one project has the empty name.\<close>

definition directory_blank :: "string \<rightharpoonup> string" where
  "directory_blank = [''1'' \<mapsto> '''']"

text \<open>
  An observer nine hours east of UTC, at 10:00 on 2024-05-01 local time. The sample runs
  format that one day only, and the host's parser of the patterns left to it accepts
  nothing.
\<close>

definition may_1_local :: instant where
  "may_1_local = 1714489200000"

definition host_east :: host where
  "host_east =
     \<lparr>now = 1714525200000,
      utcOffset = 32400000,
      localeCompare = ci_compare,
      moment_format = (\<lambda>f t. if f = ''DD.MM.YYYY'' then ''01.05.2024'' else ''2024-05-01''),
      moment_strict = (\<lambda>s f. None)\<rparr>"

definition settings_sample :: TodoistCompletedTasksSettings where
  "settings_sample = \<lparr>todoistApiToken = ''token'', dailyNoteFormat = ''YYYY-MM-DD''\<rparr>"

definition project_work :: TodoistProject where
  "project_work = \<lparr>id_project = ''1'', name = ''Work'', color = ''red''\<rparr>"

definition project_home :: TodoistProject where
  "project_home = \<lparr>id_project = ''2'', name = ''Home'', color = ''blue''\<rparr>"

definition ok :: "'a \<Rightarrow> string + 'a response" where
  "ok data = Inr \<lparr>status = 200, text_resp = [], json = Body data\<rparr>"

text \<open>An API v1 service that has nothing completed on any day.\<close>

definition service_idle :: "(TodoistProjectResponse, TodoistCompletedTasksResponse) service" where
  "service_idle =
     \<lparr>requestUrl_projects = (\<lambda>req. ok \<lparr>results = Some [project_work], next_cursor = None\<rparr>),
      requestUrl_completed = (\<lambda>req. ok \<lparr>items = Some [], next_cursor_items = None\<rparr>)\<rparr>"

text \<open>A Sync API v9 service whose activity log has one event, completed on 2024-04-29 UTC.\<close>

definition event_old :: activity_event where
  "event_old =
     \<lparr>event_date = At 1714384800000, parent_project_id = Some ''1'', object_id = ''7'',
      extra_content = Some ''Pay rent''\<rparr>"

definition service_old :: "(sync_data, activity_data) service" where
  "service_old =
     \<lparr>requestUrl_projects = (\<lambda>req. ok \<lparr>sync_projects = Some [project_work]\<rparr>),
      requestUrl_completed = (\<lambda>req. ok \<lparr>events = Some [event_old]\<rparr>)\<rparr>"

text \<open>An API v1 service whose completed-task endpoint answers 503.\<close>

definition service_down :: "(TodoistProjectResponse, TodoistCompletedTasksResponse) service" where
  "service_down =
     \<lparr>requestUrl_projects = (\<lambda>req. ok \<lparr>results = Some [project_work], next_cursor = None\<rparr>),
      requestUrl_completed =
        (\<lambda>req. Inr \<lparr>status = 503, text_resp = ''Service Unavailable'', json = BodyNull\<rparr>)\<rparr>"

text \<open>Settings without a token.\<close>

definition settings_blank :: TodoistCompletedTasksSettings where
  "settings_blank = \<lparr>todoistApiToken = [], dailyNoteFormat = ''YYYY-MM-DD''\<rparr>"

text \<open>
  An API v1 service with two pages at each endpoint: two projects, one to a page, and
  101 completed tasks for the day, 100 on the first page.
\<close>

definition page_one :: "TodoistCompletedTask list" where
  "page_one = map (\<lambda>n. \<lparr>id_task = digits n, project_id = Some ''1'', content = ''Task''\<rparr>) [0..<100]"

definition service_paged :: "(TodoistProjectResponse, TodoistCompletedTasksResponse) service" where
  "service_paged =
     \<lparr>requestUrl_projects =
        (\<lambda>req. case req of
                 GetProjects token limit cursor \<Rightarrow>
                   (if cursor = None
                    then ok \<lparr>results = Some [project_work], next_cursor = Some ''p2''\<rparr>
                    else ok \<lparr>results = Some [project_home], next_cursor = None\<rparr>)
               | _ \<Rightarrow> Inl ''no such endpoint''),
      requestUrl_completed =
        (\<lambda>req. case req of
                 CompletedByDate token since until limit cursor \<Rightarrow>
                   (if cursor = None
                    then ok \<lparr>items = Some page_one, next_cursor_items = Some ''t2''\<rparr>
                    else ok \<lparr>items = Some [task_a], next_cursor_items = None\<rparr>)
               | _ \<Rightarrow> Inl ''no such endpoint'')\<rparr>"

text \<open>
  A Sync API v9 service whose activity log has one event, completed at
  2024-04-30T01:00:00Z, which is 10:00 on 2024-04-30 for the observer of \<^const>\<open>host_east\<close>.
\<close>

definition event_eve :: activity_event where
  "event_eve =
     \<lparr>event_date = At 1714438800000, parent_project_id = Some ''1'', object_id = ''7'',
      extra_content = Some ''Pay rent''\<rparr>"

definition service_eve :: "(sync_data, activity_data) service" where
  "service_eve =
     \<lparr>requestUrl_projects = (\<lambda>req. ok \<lparr>sync_projects = Some [project_work]\<rparr>),
      requestUrl_completed = (\<lambda>req. ok \<lparr>events = Some [event_eve]\<rparr>)\<rparr>"



section \<open>Properties\<close>

subsection \<open>Grouping\<close>

lemma groupTask_update:
  "groupTask pid m task =
     AList.update (or_null (pid task))
       ((case map_of m (or_null (pid task)) of None \<Rightarrow> [] | Some ts \<Rightarrow> ts) @ [task]) m"
  by (simp add: groupTask_def Let_def AList.update_conv' AList.update_triv split: option.splits)

lemma map_of_groupTask:
  "map_of (groupTask pid m task) k =
     (if k = or_null (pid task)
      then Some ((case map_of m k of None \<Rightarrow> [] | Some ts \<Rightarrow> ts) @ [task])
      else map_of m k)"
  by (simp add: groupTask_update AList.update_conv')

lemma distinct_groupTask:
  "distinct (map fst m) \<Longrightarrow> distinct (map fst (groupTask pid m task))"
  by (simp add: groupTask_update AList.distinct_update)

lemma map_of_foldl_groupTask:
  "map_of (foldl (groupTask pid) m tasks) k =
     (case map_of m k of
        None \<Rightarrow> (if filter (\<lambda>t. or_null (pid t) = k) tasks = [] then None
                  else Some (filter (\<lambda>t. or_null (pid t) = k) tasks))
      | Some ts \<Rightarrow> Some (ts @ filter (\<lambda>t. or_null (pid t) = k) tasks))"
proof (induction tasks arbitrary: m)
  case Nil
  then show ?case by (simp split: option.splits)
next
  case (Cons a tasks)
  show ?case
    by (simp add: Cons.IH map_of_groupTask split: option.splits)
qed

lemma distinct_foldl_groupTask:
  "distinct (map fst m) \<Longrightarrow> distinct (map fst (foldl (groupTask pid) m tasks))"
  by (induction tasks arbitrary: m) (simp_all add: distinct_groupTask)

lemma map_of_tasksByProject:
  "map_of (tasksByProject pid tasks) k =
     (if filter (\<lambda>t. or_null (pid t) = k) tasks = [] then None
      else Some (filter (\<lambda>t. or_null (pid t) = k) tasks))"
  by (simp add: tasksByProject_def map_of_foldl_groupTask)

lemma distinct_tasksByProject: "distinct (map fst (tasksByProject pid tasks))"
  by (simp add: tasksByProject_def distinct_foldl_groupTask)

lemma mset_insort_cmp: "mset (insort_cmp c x ys) = add_mset x (mset ys)"
  by (induction ys) simp_all

lemma mset_foldl_insort_cmp:
  "mset (foldl (\<lambda>acc x. insort_cmp c x acc) acc xs) = mset acc + mset xs"
  by (induction xs arbitrary: acc) (simp_all add: mset_insort_cmp)

lemma mset_sort_cmp: "mset (sort_cmp c xs) = mset xs"
  by (simp add: sort_cmp_def mset_foldl_insort_cmp)

lemma mset_sortedProjectIds: "mset (sortedProjectIds lc projects m) = mset (map fst m)"
  by (simp add: sortedProjectIds_def mset_sort_cmp)

lemma set_sortedProjectIds: "set (sortedProjectIds lc projects m) = fst ` set m"
  by (metis mset_sortedProjectIds set_mset_mset set_map)

lemma distinct_sortedProjectIds:
  "distinct (map fst m) \<Longrightarrow> distinct (sortedProjectIds lc projects m)"
  by (metis mset_sortedProjectIds mset_eq_imp_distinct_iff)

lemma entries_of_distinct:
  "distinct (map fst m) \<Longrightarrow> map (\<lambda>k. (k, projectTasks m k)) (map fst m) = m"
proof (induction m)
  case Nil
  then show ?case by simp
next
  case (Cons p m)
  have "map (\<lambda>k. (k, projectTasks (p # m) k)) (map fst m) = map (\<lambda>k. (k, projectTasks m k)) (map fst m)"
    using Cons.prems by (cases p) (force simp: projectTasks_def)
  with Cons show ?case by (cases p) (simp add: projectTasks_def)
qed

lemma mset_outputGroups:
  "mset (outputGroups lc projects pid tasks) = mset (tasksByProject pid tasks)"
proof -
  let ?m = "tasksByProject pid tasks"
  have "mset (outputGroups lc projects pid tasks)
          = image_mset (\<lambda>k. (k, projectTasks ?m k)) (mset (sortedProjectIds lc projects ?m))"
    by (simp add: outputGroups_def Let_def)
  also have "\<dots> = mset (map (\<lambda>k. (k, projectTasks ?m k)) (map fst ?m))"
    by (simp only: mset_sortedProjectIds mset_map)
  also have "\<dots> = mset ?m"
    by (simp only: entries_of_distinct [OF distinct_tasksByProject])
  finally show ?thesis .
qed

lemma mset_concat_groups:
  "distinct (map fst m) \<Longrightarrow>
   mset (concat (map snd (groupTask pid m task))) = add_mset task (mset (concat (map snd m)))"
proof (induction m)
  case Nil
  then show ?case by (simp add: groupTask_update)
next
  case (Cons p m)
  then show ?case
    by (cases p) (auto simp: groupTask_update split: option.splits)
qed

lemma mset_concat_foldl_groupTask:
  "distinct (map fst m) \<Longrightarrow>
   mset (concat (map snd (foldl (groupTask pid) m tasks))) = mset (concat (map snd m)) + mset tasks"
  by (induction tasks arbitrary: m) (simp_all add: mset_concat_groups distinct_groupTask)

lemma mset_concat_tasksByProject:
  "mset (concat (map snd (tasksByProject pid tasks))) = mset tasks"
  by (simp add: tasksByProject_def mset_concat_foldl_groupTask)

lemma mset_concat_outputGroups:
  "mset (concat (map snd (outputGroups lc projects pid tasks))) = mset tasks"
proof -
  have "mset (concat (map snd (outputGroups lc projects pid tasks)))
          = sum_mset (image_mset (mset \<circ> snd) (mset (outputGroups lc projects pid tasks)))"
    by (simp add: mset_concat sum_mset_sum_list [symmetric] comp_def)
  also have "\<dots> = sum_mset (image_mset (mset \<circ> snd) (mset (tasksByProject pid tasks)))"
    by (simp only: mset_outputGroups)
  also have "\<dots> = mset (concat (map snd (tasksByProject pid tasks)))"
    by (simp add: mset_concat sum_mset_sum_list [symmetric] comp_def)
  finally show ?thesis by (simp add: mset_concat_tasksByProject)
qed

lemma outputGroups_keys:
  "map fst (outputGroups lc projects pid tasks) = sortedProjectIds lc projects (tasksByProject pid tasks)"
  by (simp add: outputGroups_def Let_def comp_def)

lemma outputGroups_member:
  assumes "(k, ts) \<in> set (outputGroups lc projects pid tasks)"
  shows "ts = filter (\<lambda>t. or_null (pid t) = k) tasks \<and> ts \<noteq> []"
proof -
  let ?m = "tasksByProject pid tasks"
  from assms have k: "k \<in> fst ` set ?m" and ts: "ts = projectTasks ?m k"
    by (auto simp: outputGroups_def Let_def set_sortedProjectIds)
  from k have "map_of ?m k \<noteq> None"
    by (simp add: map_of_eq_None_iff)
  then show ?thesis
    using ts by (auto simp: projectTasks_def map_of_tasksByProject split: if_splits)
qed

text \<open>The Markdown lists the groups of \<^const>\<open>outputGroups\<close>, in their order.\<close>

lemma markdownOutput_outputGroups:
  "markdownOutput lc pid tid tcontent projects friendlyDateString tasks =
     ''## Tasks Completed '' @ friendlyDateString @ nl @ nl
     @ concat (map (\<lambda>(projectId, ts).
                      ''### '' @ displayName projects projectId @ nl
                      @ concat (map (taskLine tid tcontent) ts) @ nl)
                 (outputGroups lc projects pid tasks))"
  by (simp add: markdownOutput_def outputGroups_def Let_def comp_def groupBlock_def [abs_def])

lemmas run_defs =
  outputGroups_def tasksByProject_def groupTask_def sortedProjectIds_def sort_cmp_def
  compareProjectIds_def sortName_def projectTasks_def truthy_def or_null_def Let_def

lemmas ci_defs = ci_compare_def lower_def

text \<open>
  C5. Grouping is a partition of the tasks it is given. The groups of the output, taken
  together, hold the tasks as a multiset: none is dropped, none is duplicated. No two
  groups have the same key, and the group of a key holds exactly the tasks with that key
  (so each task is in one group only), in the order in which they were received; no
  group is empty.
\<close>

theorem grouping_is_partition:
  "mset (concat (map snd (outputGroups lc projects pid tasks))) = mset tasks
   \<and> distinct (map fst (outputGroups lc projects pid tasks))
   \<and> (\<forall>(k, ts) \<in> set (outputGroups lc projects pid tasks).
        ts \<noteq> [] \<and> ts = filter (\<lambda>task. or_null (pid task) = k) tasks)"
  using outputGroups_member [of _ _ lc projects pid tasks]
  by (auto simp: mset_concat_outputGroups outputGroups_keys distinct_sortedProjectIds
        distinct_tasksByProject)

lemma outputGroups_sample:
  "outputGroups ci_compare directory_work project_id [task_a, task_b, task_c]
     = [(Some ''1'', [task_a, task_c]), (None, [task_b])]"
  by (simp add: run_defs ci_defs directory_work_def task_a_def task_b_def task_c_def)

theorem grouping_is_partition_witness:
  "outputGroups ci_compare directory_work project_id [task_a, task_b, task_c]
     = [(Some ''1'', [task_a, task_c]), (None, [task_b])]
   \<and> mset (concat (map snd (outputGroups ci_compare directory_work project_id [task_a, task_b, task_c])))
       = mset [task_a, task_b, task_c]
   \<and> distinct (map fst (outputGroups ci_compare directory_work project_id [task_a, task_b, task_c]))
   \<and> [task_a, task_c] = filter (\<lambda>task. or_null (project_id task) = Some ''1'') [task_a, task_b, task_c]
   \<and> [task_b] = filter (\<lambda>task. or_null (project_id task) = None) [task_a, task_b, task_c]"
proof -
  note p = grouping_is_partition [of ci_compare directory_work project_id "[task_a, task_b, task_c]"]
  have g: "outputGroups ci_compare directory_work project_id [task_a, task_b, task_c]
             = [(Some ''1'', [task_a, task_c]), (None, [task_b])]"
    by (rule outputGroups_sample)
  from p have "\<forall>(k, ts) \<in> set (outputGroups ci_compare directory_work project_id [task_a, task_b, task_c]).
        ts \<noteq> [] \<and> ts = filter (\<lambda>task. or_null (project_id task) = k) [task_a, task_b, task_c]"
    by (elim conjE)
  then have "\<forall>(k, ts) \<in> set [(Some ''1'', [task_a, task_c]), (None, [task_b])].
        ts \<noteq> [] \<and> ts = filter (\<lambda>task. or_null (project_id task) = k) [task_a, task_b, task_c]"
    by (simp only: g)
  then have f: "[task_a, task_c] = filter (\<lambda>task. or_null (project_id task) = Some ''1'') [task_a, task_b, task_c]"
    "[task_b] = filter (\<lambda>task. or_null (project_id task) = None) [task_a, task_b, task_c]"
    by (simp_all only: list.set ball_simps split_conv insert_iff prod.case)
  from p g f show ?thesis by (intro conjI) (elim conjE, assumption)+
qed

subsection \<open>Keys of the groups\<close>

lemma keys_tasksByProject:
  "k \<in> fst ` set (tasksByProject pid tasks) \<longleftrightarrow> (\<exists>t \<in> set tasks. or_null (pid t) = k)"
proof -
  have "k \<in> fst ` set (tasksByProject pid tasks) \<longleftrightarrow> map_of (tasksByProject pid tasks) k \<noteq> None"
    by (simp add: map_of_eq_None_iff)
  also have "\<dots> \<longleftrightarrow> filter (\<lambda>t. or_null (pid t) = k) tasks \<noteq> []"
    by (simp add: map_of_tasksByProject)
  also have "\<dots> \<longleftrightarrow> (\<exists>t \<in> set tasks. or_null (pid t) = k)"
    by (simp add: filter_empty_conv)
  finally show ?thesis .
qed

lemma keys_outputGroups:
  "k \<in> fst ` set (outputGroups lc projects pid tasks) \<longleftrightarrow> (\<exists>t \<in> set tasks. or_null (pid t) = k)"
proof -
  have "fst ` set (outputGroups lc projects pid tasks) = set (map fst (outputGroups lc projects pid tasks))"
    by simp
  also have "\<dots> = fst ` set (tasksByProject pid tasks)"
    by (simp only: outputGroups_keys set_sortedProjectIds)
  finally show ?thesis
    by (simp only: keys_tasksByProject)
qed

lemma outputGroups_entry:
  assumes "task \<in> set tasks"
  shows "(or_null (pid task), filter (\<lambda>t. or_null (pid t) = or_null (pid task)) tasks)
           \<in> set (outputGroups lc projects pid tasks)"
proof -
  from assms have "or_null (pid task) \<in> fst ` set (outputGroups lc projects pid tasks)"
    by (auto simp: keys_outputGroups)
  then obtain ts where "(or_null (pid task), ts) \<in> set (outputGroups lc projects pid tasks)"
    by auto
  with outputGroups_member [OF this] show ?thesis by simp
qed

lemma or_null_not_empty: "or_null v \<noteq> Some []"
  by (simp add: or_null_def truthy_def split: option.splits)

text \<open>
  C10. A task whose project id is the empty string is grouped under the null key: the
  key of its group is \<^verbatim>\<open>null\<close>, it is listed in the group of the null key, whose
  subheading is \<^verbatim>\<open>No Project\<close>, and no group has the empty string for its key, so no
  subheading \<^verbatim>\<open>Unknown Project (ID: )\<close> is rendered.
\<close>

theorem empty_project_id_is_no_project:
  assumes "task \<in> set tasks" and "pid task = Some []"
  shows "or_null (pid task) = None
    \<and> (\<exists>ts. (None, ts) \<in> set (outputGroups lc projects pid tasks) \<and> task \<in> set ts)
    \<and> displayName projects None = ''No Project''
    \<and> Some [] \<notin> fst ` set (outputGroups lc projects pid tasks)"
proof -
  from assms(2) have k: "or_null (pid task) = None"
    by (simp add: or_null_def truthy_def)
  have "(None, filter (\<lambda>t. or_null (pid t) = None) tasks) \<in> set (outputGroups lc projects pid tasks)"
    using outputGroups_entry [OF assms(1), of pid lc projects] by (simp add: k)
  moreover have "task \<in> set (filter (\<lambda>t. or_null (pid t) = None) tasks)"
    using assms(1) k by simp
  ultimately have "\<exists>ts. (None, ts) \<in> set (outputGroups lc projects pid tasks) \<and> task \<in> set ts"
    by blast
  moreover have "displayName projects None = ''No Project''"
    by (simp add: displayName_def truthy_def)
  moreover have "Some [] \<notin> fst ` set (outputGroups lc projects pid tasks)"
    by (metis keys_outputGroups or_null_not_empty)
  ultimately show ?thesis using k by blast
qed

lemma outputGroups_sample_d:
  "outputGroups ci_compare directory_work project_id [task_a, task_d]
     = [(Some ''1'', [task_a]), (None, [task_d])]"
  by (simp add: run_defs ci_defs directory_work_def task_a_def task_d_def)

theorem empty_project_id_is_no_project_witness:
  "task_d \<in> set [task_a, task_d] \<and> project_id task_d = Some []
   \<and> outputGroups ci_compare directory_work project_id [task_a, task_d]
       = [(Some ''1'', [task_a]), (None, [task_d])]
   \<and> (\<exists>ts. (None, ts) \<in> set (outputGroups ci_compare directory_work project_id [task_a, task_d])
            \<and> task_d \<in> set ts)
   \<and> Some [] \<notin> fst ` set (outputGroups ci_compare directory_work project_id [task_a, task_d])"
proof -
  have h1: "task_d \<in> set [task_a, task_d]" by simp
  have h2: "project_id task_d = Some []" by (simp add: task_d_def)
  from empty_project_id_is_no_project [where task = task_d and tasks = "[task_a, task_d]"
      and pid = project_id and lc = ci_compare and projects = directory_work, OF h1 h2] h1 h2
    outputGroups_sample_d
  show ?thesis by blast
qed

subsection \<open>Subheadings\<close>

lemma outputGroups_key_cases:
  assumes "(k, ts) \<in> set (outputGroups lc projects pid tasks)"
  shows "k = None \<or> (\<exists>i. k = Some i \<and> i \<noteq> [])"
proof -
  from assms have "k \<in> fst ` set (outputGroups lc projects pid tasks)"
    by (rule rev_image_eqI) simp
  then have "k \<noteq> Some []"
    by (metis keys_outputGroups or_null_not_empty)
  then show ?thesis by (cases k) auto
qed

text \<open>
  C7, as the code has it. The name in a group's subheading is \<^verbatim>\<open>No Project\<close> for the
  null key; for a project id that the directory maps to a name that is not empty, that
  name; and \<^verbatim>\<open>Unknown Project (ID: <id>)\<close> for a project id that the directory does not
  list or maps to the empty name.
\<close>

theorem display_name_cases:
  assumes "(k, ts) \<in> set (outputGroups lc projects pid tasks)"
  shows "displayName projects k =
           (case k of
              None \<Rightarrow> ''No Project''
            | Some i \<Rightarrow>
                (case projects i of
                   None \<Rightarrow> ''Unknown Project (ID: '' @ i @ '')''
                 | Some n \<Rightarrow> if n = [] then ''Unknown Project (ID: '' @ i @ '')'' else n))"
  using outputGroups_key_cases [OF assms]
  by (auto simp: displayName_def truthy_def split: option.splits)

lemma outputGroups_sample_9:
  "outputGroups ci_compare directory_work project_id [task_a, task_b, task_9]
     = [(Some ''9'', [task_9]), (Some ''1'', [task_a]), (None, [task_b])]"
  by (simp add: run_defs ci_defs directory_work_def task_a_def task_b_def task_9_def)

theorem display_name_cases_witness:
  "(Some ''9'', [task_9]) \<in> set (outputGroups ci_compare directory_work project_id [task_a, task_b, task_9])
   \<and> displayName directory_work (Some ''9'') = ''Unknown Project (ID: 9)''"
proof -
  have m: "(Some ''9'', [task_9])
             \<in> set (outputGroups ci_compare directory_work project_id [task_a, task_b, task_9])"
    by (simp add: outputGroups_sample_9)
  from display_name_cases [OF m]
  have "displayName directory_work (Some ''9'') = ''Unknown Project (ID: 9)''"
    by (simp add: directory_work_def)
  with m show ?thesis by blast
qed

text \<open>
  C7 as stated fails for a project that the directory lists with the empty name: its
  group is headed \<^verbatim>\<open>Unknown Project (ID: 1)\<close>, not by the directory's name.
\<close>

theorem display_name_counterexample:
  "directory_blank ''1'' = Some ''''
   \<and> outputGroups ci_compare directory_blank project_id [task_a] = [(Some ''1'', [task_a])]
   \<and> displayName directory_blank (Some ''1'') = ''Unknown Project (ID: 1)''
   \<and> displayName directory_blank (Some ''1'') \<noteq> the (directory_blank ''1'')
   \<and> markdownOutput ci_compare project_id id_task (\<lambda>task. Some (content task)) directory_blank
        ''Today'' [task_a]
      = ''## Tasks Completed Today'' @ nl @ nl @ ''### Unknown Project (ID: 1)'' @ nl
        @ ''- [Write spec](https://todoist.com/showTask?id=a)'' @ nl @ nl"
  by (simp add: run_defs ci_defs markdownOutput_def groupBlock_def taskLine_def displayName_def
        directory_blank_def task_a_def)

subsection \<open>Order of the groups\<close>

text \<open>
  Insertion keeps a list sorted for any transitive relation that the comparator decides:
  what is not smaller goes behind, what is smaller goes in front.
\<close>

lemma set_insort_cmp: "set (insort_cmp c x ys) = insert x (set ys)"
  by (induction ys) auto

lemma sorted_wrt_insort_cmp:
  assumes behind: "\<And>y. \<not> c x y < 0 \<Longrightarrow> R y x"
    and front: "\<And>y. c x y < 0 \<Longrightarrow> R x y"
    and trans: "\<And>a b d. R a b \<Longrightarrow> R b d \<Longrightarrow> R a d"
    and sorted: "sorted_wrt R ys"
  shows "sorted_wrt R (insort_cmp c x ys)"
  using sorted
proof (induction ys)
  case Nil
  then show ?case by simp
next
  case (Cons y ys)
  show ?case
  proof (cases "c x y < 0")
    case True
    then have "R x y" by (rule front)
    moreover have "\<forall>z \<in> set ys. R x z"
      using Cons.prems \<open>R x y\<close> trans by auto
    ultimately show ?thesis using True Cons.prems by simp
  next
    case False
    then have "R y x" by (rule behind)
    then show ?thesis using False Cons by (simp add: set_insort_cmp)
  qed
qed

lemma sorted_wrt_foldl_insort_cmp:
  assumes "\<And>x y. \<not> c x y < 0 \<Longrightarrow> R y x"
    and "\<And>x y. c x y < 0 \<Longrightarrow> R x y"
    and "\<And>a b d. R a b \<Longrightarrow> R b d \<Longrightarrow> R a d"
  shows "sorted_wrt R acc \<Longrightarrow> sorted_wrt R (foldl (\<lambda>acc x. insort_cmp c x acc) acc xs)"
proof (induction xs arbitrary: acc)
  case Nil
  then show ?case by simp
next
  case (Cons x xs)
  have "sorted_wrt R (insort_cmp c x acc)"
    using assms Cons.prems by (intro sorted_wrt_insort_cmp) blast+
  then show ?case using Cons.IH by simp
qed

lemma sorted_wrt_sort_cmp:
  assumes "\<And>x y. \<not> c x y < 0 \<Longrightarrow> R y x"
    and "\<And>x y. c x y < 0 \<Longrightarrow> R x y"
    and "\<And>a b d. R a b \<Longrightarrow> R b d \<Longrightarrow> R a d"
  shows "sorted_wrt R (sort_cmp c xs)"
  unfolding sort_cmp_def using assms by (intro sorted_wrt_foldl_insort_cmp) simp_all

text \<open>The null key stays behind every other key, whatever \<open>lc\<close> is.\<close>

lemma null_behind_sortedProjectIds:
  "sorted_wrt (\<lambda>a b. a = None \<longrightarrow> b = None) (sortedProjectIds lc projects m)"
  unfolding sortedProjectIds_def
  by (rule sorted_wrt_sort_cmp) (auto simp: compareProjectIds_def Let_def split: if_splits)

lemma null_last:
  assumes "distinct ks" and "sorted_wrt (\<lambda>a b. a = None \<longrightarrow> b = None) ks" and "None \<in> set ks"
  shows "last ks = None"
  using assms
proof (induction ks)
  case Nil
  then show ?case by simp
next
  case (Cons k ks)
  show ?case
  proof (cases "ks = []")
    case True
    with Cons.prems show ?thesis by simp
  next
    case False
    have "k \<noteq> None"
    proof
      assume "k = None"
      with Cons.prems(2) have "\<forall>b \<in> set ks. b = None" by simp
      moreover from False obtain b where "b \<in> set ks" by (cases ks) auto
      ultimately have "None \<in> set ks" by auto
      with Cons.prems(1) \<open>k = None\<close> show False by simp
    qed
    with Cons show ?thesis using False by auto
  qed
qed

lemma by_sort_name_sortedProjectIds:
  assumes "\<forall>x y. 0 \<le> lc x y \<longrightarrow> lc y x \<le> 0"
    and "\<forall>x y z. lc x y \<le> 0 \<and> lc y z \<le> 0 \<longrightarrow> lc x z \<le> 0"
  shows "sorted_wrt (\<lambda>a b. b = None \<or> (a \<noteq> None \<and> lc (sortName projects a) (sortName projects b) \<le> 0))
           (sortedProjectIds lc projects m)"
  unfolding sortedProjectIds_def
proof (rule sorted_wrt_sort_cmp)
  fix x y :: "string option"
  assume "\<not> compareProjectIds lc projects x y < 0"
  then show "x = None \<or> (y \<noteq> None \<and> lc (sortName projects y) (sortName projects x) \<le> 0)"
    using assms(1) by (auto simp: compareProjectIds_def Let_def split: if_splits)
next
  fix x y :: "string option"
  assume "compareProjectIds lc projects x y < 0"
  then show "y = None \<or> (x \<noteq> None \<and> lc (sortName projects x) (sortName projects y) \<le> 0)"
    by (auto simp: compareProjectIds_def Let_def split: if_splits)
next
  fix a b d :: "string option"
  assume "b = None \<or> (a \<noteq> None \<and> lc (sortName projects a) (sortName projects b) \<le> 0)"
    and "d = None \<or> (b \<noteq> None \<and> lc (sortName projects b) (sortName projects d) \<le> 0)"
  then show "d = None \<or> (a \<noteq> None \<and> lc (sortName projects a) (sortName projects d) \<le> 0)"
    using assms(2) by blast
qed

lemma sorted_wrt_nonnull:
  assumes "sorted_wrt (\<lambda>a b. b = None \<or> (a \<noteq> None \<and> P a b)) ks"
  shows "sorted_wrt P (filter (\<lambda>k. k \<noteq> None) ks)"
  using assms by (induction ks) auto

lemma lex_compare_antisym: "0 \<le> lex_compare xs ys \<Longrightarrow> lex_compare ys xs \<le> 0"
proof (induction xs ys rule: lex_compare.induct)
  case (4 x xs y ys)
  then show ?case by (cases "x < y"; cases "y < x") simp_all
qed simp_all

lemma lex_compare_trans:
  "lex_compare xs ys \<le> 0 \<Longrightarrow> lex_compare ys zs \<le> 0 \<Longrightarrow> lex_compare xs zs \<le> 0"
proof (induction xs ys arbitrary: zs rule: lex_compare.induct)
  case 1
  then show ?case by simp
next
  case (2 y ys)
  then show ?case by (cases zs) simp_all
next
  case (3 x xs)
  then show ?case by simp
next
  case (4 x xs y ys)
  show ?case
  proof (cases zs)
    case Nil
    with 4 show ?thesis by simp
  next
    case (Cons z zs')
    show ?thesis
    proof (cases "x < y")
      case True
      with 4(3) Cons have "x < z" by (cases "y < z"; cases "z < y") simp_all
      then show ?thesis using Cons by simp
    next
      case False
      with 4(2) have xy: "x = y" and l: "lex_compare xs ys \<le> 0"
        by (cases "y < x"; simp)+
      show ?thesis
      proof (cases "y < z")
        case True
        then show ?thesis using Cons xy by simp
      next
        case F2: False
        with 4(3) Cons have yz: "y = z" and l2: "lex_compare ys zs' \<le> 0"
          by (cases "z < y"; simp)+
        from 4(1) [OF False _ l l2] xy have "lex_compare xs zs' \<le> 0" by simp
        then show ?thesis using Cons xy yz by simp
      qed
    qed
  qed
qed

lemma ci_compare_antisym: "\<forall>x y. 0 \<le> ci_compare x y \<longrightarrow> ci_compare y x \<le> 0"
  by (simp add: ci_compare_def lex_compare_antisym)

lemma ci_compare_trans:
  "\<forall>x y z. ci_compare x y \<le> 0 \<and> ci_compare y z \<le> 0 \<longrightarrow> ci_compare x z \<le> 0"
  by (auto simp: ci_compare_def intro: lex_compare_trans)

text \<open>
  C4, as the code has it. The group of the null key is the last one. If \<open>lc\<close> compares
  as an order does (a result that is not negative is not positive the other way round;
  less-or-equal is transitive), the other groups are in ascending order of \<open>lc\<close> on their
  sort names. The sort name of a project id is the directory's name for it, and the
  text \<^verbatim>\<open>Unknown Project\<close>, without the id, when the directory does not list it: it is
  not the name of the subheading.
\<close>

theorem group_order:
  "(None \<in> set (map fst (outputGroups lc projects pid tasks))
      \<longrightarrow> last (map fst (outputGroups lc projects pid tasks)) = None)
   \<and> ((\<forall>x y. 0 \<le> lc x y \<longrightarrow> lc y x \<le> 0)
        \<and> (\<forall>x y z. lc x y \<le> 0 \<and> lc y z \<le> 0 \<longrightarrow> lc x z \<le> 0)
      \<longrightarrow> sorted_wrt (\<lambda>a b. lc (sortName projects a) (sortName projects b) \<le> 0)
            (filter (\<lambda>k. k \<noteq> None) (map fst (outputGroups lc projects pid tasks))))
   \<and> (\<forall>i. i \<noteq> [] \<longrightarrow>
         sortName projects (Some i) = (case projects i of Some n \<Rightarrow> n | None \<Rightarrow> ''Unknown Project''))"
proof (intro conjI impI allI)
  let ?ks = "map fst (outputGroups lc projects pid tasks)"
  have ks: "?ks = sortedProjectIds lc projects (tasksByProject pid tasks)"
    by (rule outputGroups_keys)
  show "last ?ks = None" if "None \<in> set ?ks"
  proof (rule null_last)
    show "distinct ?ks"
      unfolding ks by (rule distinct_sortedProjectIds) (rule distinct_tasksByProject)
    show "sorted_wrt (\<lambda>a b. a = None \<longrightarrow> b = None) ?ks"
      unfolding ks by (rule null_behind_sortedProjectIds)
    show "None \<in> set ?ks" by (rule that)
  qed
  show "sorted_wrt (\<lambda>a b. lc (sortName projects a) (sortName projects b) \<le> 0)
          (filter (\<lambda>k. k \<noteq> None) ?ks)"
    if "(\<forall>x y. 0 \<le> lc x y \<longrightarrow> lc y x \<le> 0)
        \<and> (\<forall>x y z. lc x y \<le> 0 \<and> lc y z \<le> 0 \<longrightarrow> lc x z \<le> 0)"
  proof -
    from that have "sorted_wrt (\<lambda>a b. b = None \<or> (a \<noteq> None \<and> lc (sortName projects a) (sortName projects b) \<le> 0))
           (sortedProjectIds lc projects (tasksByProject pid tasks))"
      by (intro by_sort_name_sortedProjectIds) (elim conjE, assumption)+
    then show ?thesis
      unfolding ks by (rule sorted_wrt_nonnull)
  qed
  show "sortName projects (Some i) = (case projects i of Some n \<Rightarrow> n | None \<Rightarrow> ''Unknown Project'')"
    if "i \<noteq> []" for i
    using that by (simp add: sortName_def truthy_def)
qed

lemma outputGroups_sample_order:
  "outputGroups ci_compare directory_work project_id [task_b, task_9, task_a, task_10]
     = [(Some ''9'', [task_9]), (Some ''10'', [task_10]), (Some ''1'', [task_a]), (None, [task_b])]"
  by (simp add: run_defs ci_defs directory_work_def task_a_def task_b_def task_9_def task_10_def)


theorem group_order_witness:
  "map fst (outputGroups ci_compare directory_work project_id [task_b, task_9, task_a, task_10])
     = [Some ''9'', Some ''10'', Some ''1'', None]
   \<and> last (map fst (outputGroups ci_compare directory_work project_id [task_b, task_9, task_a, task_10]))
       = None
   \<and> sorted_wrt (\<lambda>a b. ci_compare (sortName directory_work a) (sortName directory_work b) \<le> 0)
        [Some ''9'', Some ''10'', Some ''1'']
   \<and> sortName directory_work (Some ''9'') = ''Unknown Project''"
proof -
  note g = group_order [of ci_compare directory_work project_id "[task_b, task_9, task_a, task_10]"]
  have ks: "map fst (outputGroups ci_compare directory_work project_id [task_b, task_9, task_a, task_10])
              = [Some ''9'', Some ''10'', Some ''1'', None]"
    by (simp add: outputGroups_sample_order)
  have l: "last (map fst (outputGroups ci_compare directory_work project_id
                   [task_b, task_9, task_a, task_10])) = None"
    using g [THEN conjunct1] by (simp add: ks)
  have "sorted_wrt (\<lambda>a b. ci_compare (sortName directory_work a) (sortName directory_work b) \<le> 0)
          (filter (\<lambda>k. k \<noteq> None) (map fst (outputGroups ci_compare directory_work project_id
             [task_b, task_9, task_a, task_10])))"
    by (rule g [THEN conjunct2, THEN conjunct1, THEN mp, OF conjI [OF ci_compare_antisym ci_compare_trans]])
  then have s: "sorted_wrt (\<lambda>a b. ci_compare (sortName directory_work a) (sortName directory_work b) \<le> 0)
          [Some ''9'', Some ''10'', Some ''1'']"
    unfolding ks by simp
  have n: "sortName directory_work (Some ''9'') = ''Unknown Project''"
    using g [THEN conjunct2, THEN conjunct2, THEN spec, of "''9''"] by (simp add: directory_work_def)
  from ks l s n show ?thesis by (intro conjI)
qed

text \<open>
  C4 as stated fails for two projects that the directory does not list: their groups
  stay in the order of first appearance, project 9 before project 10, while the
  subheading of project 10 comes first in the case-insensitive lexical order.
\<close>

theorem group_order_counterexample:
  "map fst (outputGroups ci_compare directory_work project_id [task_9, task_10])
     = [Some ''9'', Some ''10'']
   \<and> map (displayName directory_work) [Some ''9'', Some ''10'']
       = [''Unknown Project (ID: 9)'', ''Unknown Project (ID: 10)'']
   \<and> ci_compare ''Unknown Project (ID: 9)'' ''Unknown Project (ID: 10)'' = 1
   \<and> \<not> sorted_wrt (\<lambda>a b. ci_compare (displayName directory_work a) (displayName directory_work b) \<le> 0)
          (filter (\<lambda>k. k \<noteq> None)
             (map fst (outputGroups ci_compare directory_work project_id [task_9, task_10])))"
  by (simp add: run_defs ci_defs displayName_def directory_work_def task_9_def task_10_def)

subsection \<open>The fetch, step by step\<close>

lemma fetchProjectData_v1_ok:
  assumes "todoistApiToken settings \<noteq> []"
    and "requestUrl_projects svc (GetProjects (todoistApiToken settings) 200 None) = Inr response"
    and "status response = 200"
    and "json response = Body data"
  shows "fetchProjectData_v1 settings svc =
           (Request (GetProjects (todoistApiToken settings) 200 None)
              # map (\<lambda>project. Notice (''Project {project.name} as color '' @ color project))
                  (case results data of Some ps \<Rightarrow> ps | None \<Rightarrow> []),
            Inr (projectsMap (case results data of Some ps \<Rightarrow> ps | None \<Rightarrow> [])))"
  using assms by (simp add: fetchProjectData_v1_def Let_def projectsMap_def split: option.splits)

lemma fetchProjectData_v9_ok:
  assumes "todoistApiToken settings \<noteq> []"
    and "requestUrl_projects svc (SyncProjects (todoistApiToken settings)) = Inr response"
    and "status response = 200"
    and "json response = Body data"
  shows "fetchProjectData_v9 settings svc =
           ([Request (SyncProjects (todoistApiToken settings))],
            Inr (projectsMap (case sync_projects data of Some ps \<Rightarrow> ps | None \<Rightarrow> [])))"
  using assms by (simp add: fetchProjectData_v9_def Let_def projectsMap_def split: option.splits)

lemma fetchAndFormatTasksForDate_v1_ok:
  assumes "todoistApiToken settings \<noteq> []"
    and "fetchProjectData_v1 settings svc = (es, Inr projects)"
    and "requestUrl_completed svc
           (CompletedByDate (todoistApiToken settings) (startOfDay (utcOffset h) targetDate)
              (endOfDay (utcOffset h) targetDate) 100 None) = Inr response"
    and "status response = 200"
    and "json response = Body data"
    and "items data = Some tasks"
  shows "fetchAndFormatTasksForDate_v1 h settings svc targetDate =
           (es @ Request (CompletedByDate (todoistApiToken settings) (startOfDay (utcOffset h) targetDate)
                    (endOfDay (utcOffset h) targetDate) 100 None)
               # fst (formatTasks h project_id id_task (\<lambda>task. Some (content task)) projects targetDate tasks),
            snd (formatTasks h project_id id_task (\<lambda>task. Some (content task)) projects targetDate tasks))"
  using assms by (simp add: fetchAndFormatTasksForDate_v1_def Let_def split: prod.splits)

lemma fetchAndFormatTasksForDate_v9_ok:
  assumes "todoistApiToken settings \<noteq> []"
    and "fetchProjectData_v9 settings svc = (es, Inr projects)"
    and "requestUrl_completed svc (ActivityGet (todoistApiToken settings) 100) = Inr response"
    and "status response = 200"
    and "json response = Body data"
    and "events data = Some evs"
  shows "fetchAndFormatTasksForDate_v9 h settings svc targetDate =
           (es @ Request (ActivityGet (todoistApiToken settings) 100)
               # fst (formatTasks h parent_project_id object_id extra_content projects targetDate
                       (completedOnDateEvents targetDate evs)),
            snd (formatTasks h parent_project_id object_id extra_content projects targetDate
                   (completedOnDateEvents targetDate evs)))"
  using assms by (simp add: fetchAndFormatTasksForDate_v9_def Let_def split: prod.splits)

lemma formatTasks_empty:
  "snd (formatTasks h pid tid tcontent projects targetMoment []) = Inr []"
  by (simp add: formatTasks_def Let_def)

lemma formatTasks_nonempty:
  "tasks \<noteq> [] \<Longrightarrow>
   snd (formatTasks h pid tid tcontent projects targetMoment tasks) =
     Inr (markdownOutput (localeCompare h) pid tid tcontent projects
            (if isSame_day (utcOffset h) targetMoment (now h) then ''Today''
             else moment_format h ''YYYY-MM-DD'' targetMoment) tasks)"
  by (simp add: formatTasks_def Let_def)

subsection \<open>The empty result\<close>

text \<open>
  C6. With no task left to render, the result is the empty string, and it is a result,
  not an error: the formatting step returns it for the empty sequence, and so does the
  whole fetch in both revisions, when the requests succeed and the response holds no
  item (API v1) or no event passes the day filter (Sync API v9).
\<close>

theorem empty_result_is_empty_string:
  "snd (formatTasks h pid tid tcontent projects targetMoment []) = Inr []
   \<and> (todoistApiToken settings \<noteq> []
        \<and> fetchProjectData_v1 settings svc1 = (es1, Inr projects1)
        \<and> requestUrl_completed svc1
             (CompletedByDate (todoistApiToken settings) (startOfDay (utcOffset h) targetDate)
                (endOfDay (utcOffset h) targetDate) 100 None) = Inr response1
        \<and> status response1 = 200 \<and> json response1 = Body data1 \<and> items data1 = Some []
      \<longrightarrow> snd (fetchAndFormatTasksForDate_v1 h settings svc1 targetDate) = Inr [])
   \<and> (todoistApiToken settings \<noteq> []
        \<and> fetchProjectData_v9 settings svc9 = (es9, Inr projects9)
        \<and> requestUrl_completed svc9 (ActivityGet (todoistApiToken settings) 100) = Inr response9
        \<and> status response9 = 200 \<and> json response9 = Body data9 \<and> events data9 = Some evs
        \<and> completedOnDateEvents targetDate evs = []
      \<longrightarrow> snd (fetchAndFormatTasksForDate_v9 h settings svc9 targetDate) = Inr [])"
proof (intro conjI impI)
  show "snd (formatTasks h pid tid tcontent projects targetMoment []) = Inr []"
    by (rule formatTasks_empty)
next
  assume "todoistApiToken settings \<noteq> []
        \<and> fetchProjectData_v1 settings svc1 = (es1, Inr projects1)
        \<and> requestUrl_completed svc1
             (CompletedByDate (todoistApiToken settings) (startOfDay (utcOffset h) targetDate)
                (endOfDay (utcOffset h) targetDate) 100 None) = Inr response1
        \<and> status response1 = 200 \<and> json response1 = Body data1 \<and> items data1 = Some []"
  then show "snd (fetchAndFormatTasksForDate_v1 h settings svc1 targetDate) = Inr []"
    by (simp add: fetchAndFormatTasksForDate_v1_ok [where tasks = "[]"] formatTasks_empty)
next
  assume "todoistApiToken settings \<noteq> []
        \<and> fetchProjectData_v9 settings svc9 = (es9, Inr projects9)
        \<and> requestUrl_completed svc9 (ActivityGet (todoistApiToken settings) 100) = Inr response9
        \<and> status response9 = 200 \<and> json response9 = Body data9 \<and> events data9 = Some evs
        \<and> completedOnDateEvents targetDate evs = []"
  then show "snd (fetchAndFormatTasksForDate_v9 h settings svc9 targetDate) = Inr []"
    by (simp add: fetchAndFormatTasksForDate_v9_ok [where evs = evs] formatTasks_empty)
qed

lemma fetchProjectData_v1_idle:
  "fetchProjectData_v1 settings_sample service_idle =
     ([Request (GetProjects ''token'' 200 None), Notice ''Project {project.name} as color red''],
      Inr (projectsMap [project_work]))"
  by (simp add: fetchProjectData_v1_def settings_sample_def service_idle_def ok_def project_work_def)

lemma fetchProjectData_v9_old:
  "fetchProjectData_v9 settings_sample service_old =
     ([Request (SyncProjects ''token'')], Inr (projectsMap [project_work]))"
  by (simp add: fetchProjectData_v9_def settings_sample_def service_old_def ok_def)

theorem empty_result_is_empty_string_witness:
  "snd (fetchAndFormatTasksForDate_v1 host_east settings_sample service_idle may_1_local) = Inr []
   \<and> snd (fetchAndFormatTasksForDate_v9 host_east settings_sample service_old may_1_local) = Inr []
   \<and> completedOnDateEvents may_1_local [event_old] = []"
proof -
  note e = empty_result_is_empty_string [where h = host_east and settings = settings_sample
      and targetDate = may_1_local
      and ?svc1.0 = service_idle
      and ?es1.0 = "[Request (GetProjects ''token'' 200 None), Notice ''Project {project.name} as color red'']"
      and ?projects1.0 = "projectsMap [project_work]"
      and ?response1.0 = "\<lparr>status = 200, text_resp = [],
                            json = Body \<lparr>items = Some [], next_cursor_items = None\<rparr>\<rparr>"
      and ?data1.0 = "\<lparr>items = Some [], next_cursor_items = None\<rparr>"
      and ?svc9.0 = service_old
      and ?es9.0 = "[Request (SyncProjects ''token'')]"
      and ?projects9.0 = "projectsMap [project_work]"
      and ?response9.0 = "\<lparr>status = 200, text_resp = [],
                            json = Body \<lparr>events = Some [event_old]\<rparr>\<rparr>"
      and ?data9.0 = "\<lparr>events = Some [event_old]\<rparr>"
      and evs = "[event_old]"]
  have f: "completedOnDateEvents may_1_local [event_old] = []"
    by (simp add: completedOnDateEvents_def event_old_def may_1_local_def isSame_day_def
          startOfDay_def endOfDay_def dayOf_def msPerDay_def)
  have t: "todoistApiToken settings_sample \<noteq> []"
    by (simp add: settings_sample_def)
  have r1: "requestUrl_completed service_idle
              (CompletedByDate (todoistApiToken settings_sample)
                 (startOfDay (utcOffset host_east) may_1_local)
                 (endOfDay (utcOffset host_east) may_1_local) 100 None)
            = Inr \<lparr>status = 200, text_resp = [],
                     json = Body \<lparr>items = Some [], next_cursor_items = None\<rparr>\<rparr>"
    by (simp add: service_idle_def ok_def)
  have r9: "requestUrl_completed service_old (ActivityGet (todoistApiToken settings_sample) 100)
            = Inr \<lparr>status = 200, text_resp = [], json = Body \<lparr>events = Some [event_old]\<rparr>\<rparr>"
    by (simp add: service_old_def ok_def)
  have "snd (fetchAndFormatTasksForDate_v1 host_east settings_sample service_idle may_1_local) = Inr []"
    using e [THEN conjunct2, THEN conjunct1] t r1 fetchProjectData_v1_idle by simp
  moreover
  have "snd (fetchAndFormatTasksForDate_v9 host_east settings_sample service_old may_1_local) = Inr []"
    using e [THEN conjunct2, THEN conjunct2] t r9 f fetchProjectData_v9_old by simp
  ultimately show ?thesis using f by (intro conjI)
qed

subsection \<open>Failures\<close>

lemma no_insert_fetchProjectData_v1:
  "ReplaceSelection md \<notin> set (fst (fetchProjectData_v1 settings svc))"
  by (auto simp: fetchProjectData_v1_def fetchProjectData_catch_def Let_def
      split: sum.splits body.splits option.splits)

lemma no_insert_fetchProjectData_v9:
  "ReplaceSelection md \<notin> set (fst (fetchProjectData_v9 settings svc))"
  by (auto simp: fetchProjectData_v9_def fetchProjectData_catch_def Let_def
      split: sum.splits body.splits option.splits)

lemma no_insert_formatTasks:
  "ReplaceSelection md \<notin> set (fst (formatTasks h pid tid tcontent projects targetMoment tasks))"
  by (simp add: formatTasks_def Let_def)

lemma no_insert_formatTasks_pair:
  "formatTasks h pid tid tcontent projects targetMoment tasks = (es, r) \<Longrightarrow> ReplaceSelection md \<notin> set es"
  using no_insert_formatTasks [of md h pid tid tcontent projects targetMoment tasks] by simp

lemma no_insert_fetchAndFormatTasksForDate_v1:
  "ReplaceSelection md \<notin> set (fst (fetchAndFormatTasksForDate_v1 h settings svc targetDate))"
proof (cases "fetchProjectData_v1 settings svc")
  case (Pair es r)
  with no_insert_fetchProjectData_v1 [of md settings svc]
  have "ReplaceSelection md \<notin> set es" by simp
  then show ?thesis
    using Pair
    by (auto simp: fetchAndFormatTasksForDate_v1_def Let_def dest: no_insert_formatTasks_pair
        split: sum.splits body.splits option.splits prod.splits)
qed

lemma no_insert_fetchAndFormatTasksForDate_v9:
  "ReplaceSelection md \<notin> set (fst (fetchAndFormatTasksForDate_v9 h settings svc targetDate))"
proof (cases "fetchProjectData_v9 settings svc")
  case (Pair es r)
  with no_insert_fetchProjectData_v9 [of md settings svc]
  have "ReplaceSelection md \<notin> set es" by simp
  then show ?thesis
    using Pair
    by (auto simp: fetchAndFormatTasksForDate_v9_def Let_def dest: no_insert_formatTasks_pair
        split: sum.splits body.splits option.splits prod.splits)
qed

lemma insertTasks_error:
  assumes "todoistApiToken settings = [] \<or> isl (snd fetched)"
    and "ReplaceSelection md \<notin> set (fst fetched)"
  shows "ReplaceSelection md \<notin> set (insertTasks settings dateSource fetched)"
  using assms by (auto simp: insertTasks_def split: sum.splits)

lemma fetchAndFormatTasksForDate_v1_fails:
  assumes "todoistApiToken settings = []
      \<or> isl (snd (fetchProjectData_v1 settings svc))
      \<or> completedFetchFails
           (requestUrl_completed svc
              (CompletedByDate (todoistApiToken settings) (startOfDay (utcOffset h) targetDate)
                 (endOfDay (utcOffset h) targetDate) 100 None))
           (\<lambda>data. items data = None)"
  shows "isl (snd (fetchAndFormatTasksForDate_v1 h settings svc targetDate))"
proof (cases "fetchProjectData_v1 settings svc")
  case (Pair es r)
  then show ?thesis
    using assms
    by (auto simp: fetchAndFormatTasksForDate_v1_def completedFetchFails_def Let_def
        split: sum.splits body.splits option.splits prod.splits)
qed

lemma fetchAndFormatTasksForDate_v9_fails:
  assumes "todoistApiToken settings = []
      \<or> isl (snd (fetchProjectData_v9 settings svc))
      \<or> completedFetchFails
           (requestUrl_completed svc (ActivityGet (todoistApiToken settings) 100))
           (\<lambda>data. events data = None)"
  shows "isl (snd (fetchAndFormatTasksForDate_v9 h settings svc targetDate))"
proof (cases "fetchProjectData_v9 settings svc")
  case (Pair es r)
  then show ?thesis
    using assms
    by (auto simp: fetchAndFormatTasksForDate_v9_def completedFetchFails_def Let_def
        split: sum.splits body.splits option.splits prod.splits)
qed

text \<open>
  C9. When the credential check, the project-directory fetch or the completed-task fetch
  fails, \<^verbatim>\<open>fetchAndFormatTasksForDate\<close> ends in an error, which is what its caller gets
  instead of any Markdown, and the run of \<^verbatim>\<open>fetchAndInsertTasksForView\<close> never calls
  \<^verbatim>\<open>replaceSelection\<close>. In both revisions.
\<close>

theorem failure_aborts:
  "(todoistApiToken settings = []
      \<or> isl (snd (fetchProjectData_v1 settings svc1))
      \<or> completedFetchFails
           (requestUrl_completed svc1
              (CompletedByDate (todoistApiToken settings)
                 (startOfDay (utcOffset h) (fst (targetDate_v1 h settings basename)))
                 (endOfDay (utcOffset h) (fst (targetDate_v1 h settings basename))) 100 None))
           (\<lambda>data. items data = None)
    \<longrightarrow> isl (snd (fetchAndFormatTasksForDate_v1 h settings svc1 (fst (targetDate_v1 h settings basename))))
        \<and> (\<forall>md. ReplaceSelection md \<notin> set (fetchAndInsertTasksForView_v1 h settings svc1 basename)))
   \<and> (todoistApiToken settings = []
      \<or> isl (snd (fetchProjectData_v9 settings svc9))
      \<or> completedFetchFails
           (requestUrl_completed svc9 (ActivityGet (todoistApiToken settings) 100))
           (\<lambda>data. events data = None)
    \<longrightarrow> isl (snd (fetchAndFormatTasksForDate_v9 h settings svc9 (fst (targetDate_v9 h basename))))
        \<and> (\<forall>md. ReplaceSelection md \<notin> set (fetchAndInsertTasksForView_v9 h settings svc9 basename)))"
proof (intro conjI impI allI)
  assume a: "todoistApiToken settings = []
      \<or> isl (snd (fetchProjectData_v1 settings svc1))
      \<or> completedFetchFails
           (requestUrl_completed svc1
              (CompletedByDate (todoistApiToken settings)
                 (startOfDay (utcOffset h) (fst (targetDate_v1 h settings basename)))
                 (endOfDay (utcOffset h) (fst (targetDate_v1 h settings basename))) 100 None))
           (\<lambda>data. items data = None)"
  then show f: "isl (snd (fetchAndFormatTasksForDate_v1 h settings svc1 (fst (targetDate_v1 h settings basename))))"
    by (rule fetchAndFormatTasksForDate_v1_fails)
  fix md
  show "ReplaceSelection md \<notin> set (fetchAndInsertTasksForView_v1 h settings svc1 basename)"
  proof (cases "targetDate_v1 h settings basename")
    case (Pair targetDate dateSource)
    with f have "isl (snd (fetchAndFormatTasksForDate_v1 h settings svc1 targetDate))"
      by simp
    then show ?thesis
      using Pair no_insert_fetchAndFormatTasksForDate_v1 [of md h settings svc1 targetDate]
      by (simp add: fetchAndInsertTasksForView_v1_def insertTasks_error)
  qed
next
  assume a: "todoistApiToken settings = []
      \<or> isl (snd (fetchProjectData_v9 settings svc9))
      \<or> completedFetchFails
           (requestUrl_completed svc9 (ActivityGet (todoistApiToken settings) 100))
           (\<lambda>data. events data = None)"
  then show f: "isl (snd (fetchAndFormatTasksForDate_v9 h settings svc9 (fst (targetDate_v9 h basename))))"
    by (rule fetchAndFormatTasksForDate_v9_fails)
  fix md
  show "ReplaceSelection md \<notin> set (fetchAndInsertTasksForView_v9 h settings svc9 basename)"
  proof (cases "targetDate_v9 h basename")
    case (Pair targetDate dateSource)
    with f have "isl (snd (fetchAndFormatTasksForDate_v9 h settings svc9 targetDate))"
      by simp
    then show ?thesis
      using Pair no_insert_fetchAndFormatTasksForDate_v9 [of md h settings svc9 targetDate]
      by (simp add: fetchAndInsertTasksForView_v9_def insertTasks_error)
  qed
qed

lemma targetDate_v1_sample:
  "targetDate_v1 host_east settings_sample (Some ''2024-05-01'')
     = (may_1_local, ''note filename (2024-05-01)'')"
  by code_simp

lemma digits_503: "digits 503 = ''503''"
  by code_simp

lemma fetchAndFormatTasksForDate_v1_down:
  "fetchAndFormatTasksForDate_v1 host_east settings_sample service_down may_1_local =
     ([Request (GetProjects ''token'' 200 None),
       Notice ''Project {project.name} as color red'',
       Request (CompletedByDate ''token'' 1714489200000 1714575599999 100 None)],
      Inl ''Todoist Activity API error: 503 - Service Unavailable'')"
  by (simp add: fetchAndFormatTasksForDate_v1_def fetchProjectData_v1_def Let_def
        settings_sample_def service_down_def ok_def project_work_def host_east_def may_1_local_def
        startOfDay_def endOfDay_def dayOf_def msPerDay_def digits_503)

lemma fetchAndInsertTasksForView_v1_down:
  "fetchAndInsertTasksForView_v1 host_east settings_sample service_down (Some ''2024-05-01'') =
     [Notice ''Fetching Todoist tasks completed for note filename (2024-05-01)...'',
      Request (GetProjects ''token'' 200 None),
      Notice ''Project {project.name} as color red'',
      Request (CompletedByDate ''token'' 1714489200000 1714575599999 100 None),
      ConsoleError ''Todoist Activity API error: 503 - Service Unavailable'',
      Notice ''Error: Todoist Activity API error: 503 - Service Unavailable'']"
  unfolding fetchAndInsertTasksForView_v1_def targetDate_v1_sample prod.case
    fetchAndFormatTasksForDate_v1_down
  by (simp add: insertTasks_def settings_sample_def)

theorem failure_aborts_witness:
  "completedFetchFails
     (requestUrl_completed service_down
        (CompletedByDate (todoistApiToken settings_sample)
           (startOfDay (utcOffset host_east) (fst (targetDate_v1 host_east settings_sample (Some ''2024-05-01''))))
           (endOfDay (utcOffset host_east) (fst (targetDate_v1 host_east settings_sample (Some ''2024-05-01''))))
           100 None))
     (\<lambda>data. items data = None)
   \<and> isl (snd (fetchAndFormatTasksForDate_v1 host_east settings_sample service_down
                  (fst (targetDate_v1 host_east settings_sample (Some ''2024-05-01'')))))
   \<and> ReplaceSelection [] \<notin> set (fetchAndInsertTasksForView_v1 host_east settings_sample service_down
                                    (Some ''2024-05-01''))
   \<and> todoistApiToken settings_blank = []
   \<and> isl (snd (fetchAndFormatTasksForDate_v9 host_east settings_blank service_old
                  (fst (targetDate_v9 host_east None))))
   \<and> fetchAndInsertTasksForView_v9 host_east settings_blank service_old None
       = [Notice ''Todoist API token is not set. Please configure it in the plugin settings.'']"
proof -
  have c: "completedFetchFails
     (requestUrl_completed service_down
        (CompletedByDate (todoistApiToken settings_sample)
           (startOfDay (utcOffset host_east) (fst (targetDate_v1 host_east settings_sample (Some ''2024-05-01''))))
           (endOfDay (utcOffset host_east) (fst (targetDate_v1 host_east settings_sample (Some ''2024-05-01''))))
           100 None))
     (\<lambda>data. items data = None)"
    by (simp add: completedFetchFails_def service_down_def)
  have b: "todoistApiToken settings_blank = []"
    by (simp add: settings_blank_def)
  have v: "fetchAndInsertTasksForView_v9 host_east settings_blank service_old None
       = [Notice ''Todoist API token is not set. Please configure it in the plugin settings.'']"
    by (simp add: fetchAndInsertTasksForView_v9_def insertTasks_def settings_blank_def
          split: prod.splits)
  note f1 = failure_aborts [where settings = settings_sample and h = host_east
      and ?svc1.0 = service_down and basename = "Some ''2024-05-01''", THEN conjunct1, THEN mp,
      OF disjI2 [OF disjI2 [OF c]]]
  note f9 = failure_aborts [where settings = settings_blank and h = host_east
      and ?svc9.0 = service_old and basename = None, THEN conjunct2, THEN mp, OF disjI1 [OF b]]
  from c b v f1 [THEN conjunct1] f1 [THEN conjunct2, THEN spec, of "[]"] f9 [THEN conjunct1]
  show ?thesis by (intro conjI)
qed

subsection \<open>Pagination\<close>

lemma requests_append: "requests (es @ es') = requests es @ requests es'"
  by (induction es rule: requests.induct) simp_all

lemma requests_notices: "requests (map (\<lambda>x. Notice (f x)) xs) = []"
  by (induction xs) simp_all

lemma requests_fetchProjectData_v1:
  "requests (fst (fetchProjectData_v1 settings svc)) =
     (if todoistApiToken settings = [] then [] else [GetProjects (todoistApiToken settings) 200 None])"
  by (simp add: fetchProjectData_v1_def fetchProjectData_catch_def Let_def requests_notices
      split: sum.splits body.splits option.splits)

lemma requests_fetchProjectData_v9:
  "requests (fst (fetchProjectData_v9 settings svc)) =
     (if todoistApiToken settings = [] then [] else [SyncProjects (todoistApiToken settings)])"
  by (simp add: fetchProjectData_v9_def fetchProjectData_catch_def Let_def
      split: sum.splits body.splits option.splits)

text \<open>
  C3, as the code has it. The fetcher sends one request, without a cursor, and its
  directory is the id-to-name mapping of the results of that one response, whatever the
  response's continuation cursor: projects on further pages are not in the directory.
  The Sync API v9 response of \<^verbatim>\<open>src/main.ts\<close> has no cursor.
\<close>

theorem project_directory_is_one_page:
  "requests (fst (fetchProjectData_v1 settings svc1)) =
     (if todoistApiToken settings = [] then [] else [GetProjects (todoistApiToken settings) 200 None])
   \<and> (todoistApiToken settings \<noteq> []
        \<and> requestUrl_projects svc1 (GetProjects (todoistApiToken settings) 200 None) = Inr response1
        \<and> status response1 = 200 \<and> json response1 = Body data1
      \<longrightarrow> snd (fetchProjectData_v1 settings svc1)
            = Inr (projectsMap (case results data1 of Some ps \<Rightarrow> ps | None \<Rightarrow> [])))
   \<and> requests (fst (fetchProjectData_v9 settings svc9)) =
     (if todoistApiToken settings = [] then [] else [SyncProjects (todoistApiToken settings)])
   \<and> (todoistApiToken settings \<noteq> []
        \<and> requestUrl_projects svc9 (SyncProjects (todoistApiToken settings)) = Inr response9
        \<and> status response9 = 200 \<and> json response9 = Body data9
      \<longrightarrow> snd (fetchProjectData_v9 settings svc9)
            = Inr (projectsMap (case sync_projects data9 of Some ps \<Rightarrow> ps | None \<Rightarrow> [])))"
  by (intro conjI impI)
    (simp_all add: requests_fetchProjectData_v1 requests_fetchProjectData_v9
      fetchProjectData_v1_ok fetchProjectData_v9_ok)

lemma projects_page_one:
  "requestUrl_projects service_paged (GetProjects (todoistApiToken settings_sample) 200 None)
     = Inr \<lparr>status = 200, text_resp = [],
            json = Body \<lparr>results = Some [project_work], next_cursor = Some ''p2''\<rparr>\<rparr>"
  by (simp add: service_paged_def ok_def)

theorem project_directory_is_one_page_witness:
  "snd (fetchProjectData_v1 settings_sample service_paged) = Inr (projectsMap [project_work])
   \<and> requests (fst (fetchProjectData_v1 settings_sample service_paged)) = [GetProjects ''token'' 200 None]
   \<and> snd (fetchProjectData_v9 settings_sample service_old) = Inr (projectsMap [project_work])"
proof -
  have t: "todoistApiToken settings_sample \<noteq> []" "todoistApiToken settings_sample = ''token''"
    by (simp_all add: settings_sample_def)
  note p = project_directory_is_one_page [where settings = settings_sample
      and ?svc1.0 = service_paged and ?svc9.0 = service_old
      and ?response1.0 = "\<lparr>status = 200, text_resp = [],
            json = Body \<lparr>results = Some [project_work], next_cursor = Some ''p2''\<rparr>\<rparr>"
      and ?data1.0 = "\<lparr>results = Some [project_work], next_cursor = Some ''p2''\<rparr>"
      and ?response9.0 = "\<lparr>status = 200, text_resp = [],
            json = Body \<lparr>sync_projects = Some [project_work]\<rparr>\<rparr>"
      and ?data9.0 = "\<lparr>sync_projects = Some [project_work]\<rparr>"]
  have "snd (fetchProjectData_v1 settings_sample service_paged) = Inr (projectsMap [project_work])"
    using p [THEN conjunct2, THEN conjunct1] t(1) projects_page_one by simp
  moreover
  have "requests (fst (fetchProjectData_v1 settings_sample service_paged)) = [GetProjects ''token'' 200 None]"
    using p [THEN conjunct1] t by simp
  moreover
  have "requestUrl_projects service_old (SyncProjects (todoistApiToken settings_sample))
          = Inr \<lparr>status = 200, text_resp = [], json = Body \<lparr>sync_projects = Some [project_work]\<rparr>\<rparr>"
    by (simp add: service_old_def ok_def)
  then have "snd (fetchProjectData_v9 settings_sample service_old) = Inr (projectsMap [project_work])"
    using p [THEN conjunct2, THEN conjunct2, THEN conjunct2] t(1) by simp
  ultimately show ?thesis by (intro conjI)
qed

text \<open>
  C3 as stated fails on the service with two pages of projects: the first response
  carries a cursor, the fetcher stops there, and project 2, which the complete listing
  has, is not in its directory.
\<close>

theorem project_directory_counterexample:
  "requestUrl_projects service_paged (GetProjects ''token'' 200 None)
     = ok \<lparr>results = Some [project_work], next_cursor = Some ''p2''\<rparr>
   \<and> spec_project_pages 2 service_paged ''token'' None = [project_work, project_home]
   \<and> projectsMap (spec_project_pages 2 service_paged ''token'' None) ''2'' = Some ''Home''
   \<and> snd (fetchProjectData_v1 settings_sample service_paged) = Inr (projectsMap [project_work])
   \<and> projectsMap [project_work] ''2'' = None"
  by (simp add: numeral_2_eq_2 service_paged_def ok_def projectsMap_def project_work_def
        project_home_def fetchProjectData_v1_def settings_sample_def Let_def)

lemma formatTasks_succeeds:
  "\<not> isl (snd (formatTasks h pid tid tcontent projects targetMoment tasks))"
  by (simp add: formatTasks_def Let_def)

lemma requests_formatTasks:
  "requests (fst (formatTasks h pid tid tcontent projects targetMoment tasks)) = []"
  by (simp add: formatTasks_def Let_def)

text \<open>
  C2, as the code has it. The fetch sends one completed-task request, with a limit of
  100 and without a cursor. When that request succeeds, the fetch succeeds: it formats
  the items of that one response (in \<^verbatim>\<open>src/main.ts\<close>: those of its events that pass the
  day filter) and never looks for further pages, so it raises no error when the service
  holds more records than the response.
\<close>

theorem completed_fetch_is_one_page:
  "(todoistApiToken settings \<noteq> []
        \<and> fetchProjectData_v1 settings svc1 = (es1, Inr projects1)
        \<and> requestUrl_completed svc1
             (CompletedByDate (todoistApiToken settings) (startOfDay (utcOffset h) targetDate)
                (endOfDay (utcOffset h) targetDate) 100 None) = Inr response1
        \<and> status response1 = 200 \<and> json response1 = Body data1 \<and> items data1 = Some tasks
      \<longrightarrow> snd (fetchAndFormatTasksForDate_v1 h settings svc1 targetDate)
            = snd (formatTasks h project_id id_task (\<lambda>task. Some (content task)) projects1 targetDate tasks)
          \<and> \<not> isl (snd (fetchAndFormatTasksForDate_v1 h settings svc1 targetDate))
          \<and> requests (fst (fetchAndFormatTasksForDate_v1 h settings svc1 targetDate))
              = [GetProjects (todoistApiToken settings) 200 None,
                 CompletedByDate (todoistApiToken settings) (startOfDay (utcOffset h) targetDate)
                   (endOfDay (utcOffset h) targetDate) 100 None])
   \<and> (todoistApiToken settings \<noteq> []
        \<and> fetchProjectData_v9 settings svc9 = (es9, Inr projects9)
        \<and> requestUrl_completed svc9 (ActivityGet (todoistApiToken settings) 100) = Inr response9
        \<and> status response9 = 200 \<and> json response9 = Body data9 \<and> events data9 = Some evs
      \<longrightarrow> snd (fetchAndFormatTasksForDate_v9 h settings svc9 targetDate)
            = snd (formatTasks h parent_project_id object_id extra_content projects9 targetDate
                     (completedOnDateEvents targetDate evs))
          \<and> \<not> isl (snd (fetchAndFormatTasksForDate_v9 h settings svc9 targetDate))
          \<and> requests (fst (fetchAndFormatTasksForDate_v9 h settings svc9 targetDate))
              = [SyncProjects (todoistApiToken settings), ActivityGet (todoistApiToken settings) 100])"
proof (intro conjI impI)
  assume a: "todoistApiToken settings \<noteq> []
        \<and> fetchProjectData_v1 settings svc1 = (es1, Inr projects1)
        \<and> requestUrl_completed svc1
             (CompletedByDate (todoistApiToken settings) (startOfDay (utcOffset h) targetDate)
                (endOfDay (utcOffset h) targetDate) 100 None) = Inr response1
        \<and> status response1 = 200 \<and> json response1 = Body data1 \<and> items data1 = Some tasks"
  then have a1: "todoistApiToken settings \<noteq> []"
    and a2: "fetchProjectData_v1 settings svc1 = (es1, Inr projects1)"
    and a3: "requestUrl_completed svc1
             (CompletedByDate (todoistApiToken settings) (startOfDay (utcOffset h) targetDate)
                (endOfDay (utcOffset h) targetDate) 100 None) = Inr response1"
    and a4: "status response1 = 200" and a5: "json response1 = Body data1"
    and a6: "items data1 = Some tasks"
    by simp_all
  have f: "fetchAndFormatTasksForDate_v1 h settings svc1 targetDate =
           (es1 @ Request (CompletedByDate (todoistApiToken settings) (startOfDay (utcOffset h) targetDate)
                    (endOfDay (utcOffset h) targetDate) 100 None)
               # fst (formatTasks h project_id id_task (\<lambda>task. Some (content task)) projects1 targetDate tasks),
            snd (formatTasks h project_id id_task (\<lambda>task. Some (content task)) projects1 targetDate tasks))"
    by (rule fetchAndFormatTasksForDate_v1_ok [OF a1 a2 a3 a4 a5 a6])
  from a have e: "requests es1 = [GetProjects (todoistApiToken settings) 200 None]"
    using requests_fetchProjectData_v1 [of settings svc1] by simp
  show "snd (fetchAndFormatTasksForDate_v1 h settings svc1 targetDate)
            = snd (formatTasks h project_id id_task (\<lambda>task. Some (content task)) projects1 targetDate tasks)"
    by (simp add: f)
  show "\<not> isl (snd (fetchAndFormatTasksForDate_v1 h settings svc1 targetDate))"
    by (simp only: f snd_conv formatTasks_succeeds not_False_eq_True)
  show "requests (fst (fetchAndFormatTasksForDate_v1 h settings svc1 targetDate))
              = [GetProjects (todoistApiToken settings) 200 None,
                 CompletedByDate (todoistApiToken settings) (startOfDay (utcOffset h) targetDate)
                   (endOfDay (utcOffset h) targetDate) 100 None]"
    by (simp add: f requests_append e requests_formatTasks)
next
  assume a: "todoistApiToken settings \<noteq> []
        \<and> fetchProjectData_v9 settings svc9 = (es9, Inr projects9)
        \<and> requestUrl_completed svc9 (ActivityGet (todoistApiToken settings) 100) = Inr response9
        \<and> status response9 = 200 \<and> json response9 = Body data9 \<and> events data9 = Some evs"
  then have a1: "todoistApiToken settings \<noteq> []"
    and a2: "fetchProjectData_v9 settings svc9 = (es9, Inr projects9)"
    and a3: "requestUrl_completed svc9 (ActivityGet (todoistApiToken settings) 100) = Inr response9"
    and a4: "status response9 = 200" and a5: "json response9 = Body data9"
    and a6: "events data9 = Some evs"
    by simp_all
  have f: "fetchAndFormatTasksForDate_v9 h settings svc9 targetDate =
           (es9 @ Request (ActivityGet (todoistApiToken settings) 100)
               # fst (formatTasks h parent_project_id object_id extra_content projects9 targetDate
                       (completedOnDateEvents targetDate evs)),
            snd (formatTasks h parent_project_id object_id extra_content projects9 targetDate
                   (completedOnDateEvents targetDate evs)))"
    by (rule fetchAndFormatTasksForDate_v9_ok [OF a1 a2 a3 a4 a5 a6])
  from a have e: "requests es9 = [SyncProjects (todoistApiToken settings)]"
    using requests_fetchProjectData_v9 [of settings svc9] by simp
  show "snd (fetchAndFormatTasksForDate_v9 h settings svc9 targetDate)
            = snd (formatTasks h parent_project_id object_id extra_content projects9 targetDate
                     (completedOnDateEvents targetDate evs))"
    by (simp add: f)
  show "\<not> isl (snd (fetchAndFormatTasksForDate_v9 h settings svc9 targetDate))"
    by (simp only: f snd_conv formatTasks_succeeds not_False_eq_True)
  show "requests (fst (fetchAndFormatTasksForDate_v9 h settings svc9 targetDate))
              = [SyncProjects (todoistApiToken settings), ActivityGet (todoistApiToken settings) 100]"
    by (simp add: f requests_append e requests_formatTasks)
qed

lemma fetchProjectData_v1_paged:
  "fetchProjectData_v1 settings_sample service_paged =
     ([Request (GetProjects ''token'' 200 None), Notice ''Project {project.name} as color red''],
      Inr (projectsMap [project_work]))"
  by (simp add: fetchProjectData_v1_def settings_sample_def service_paged_def ok_def project_work_def)

lemma completed_page_one:
  "requestUrl_completed service_paged
     (CompletedByDate (todoistApiToken settings_sample) (startOfDay (utcOffset host_east) may_1_local)
        (endOfDay (utcOffset host_east) may_1_local) 100 None)
   = Inr \<lparr>status = 200, text_resp = [],
          json = Body \<lparr>items = Some page_one, next_cursor_items = Some ''t2''\<rparr>\<rparr>"
  by (simp add: service_paged_def ok_def)

lemma window_sample:
  "startOfDay (utcOffset host_east) may_1_local = 1714489200000"
  "endOfDay (utcOffset host_east) may_1_local = 1714575599999"
  by (simp_all add: host_east_def may_1_local_def startOfDay_def endOfDay_def dayOf_def msPerDay_def)

lemma token_sample: "todoistApiToken settings_sample = ''token''"
  by (simp add: settings_sample_def)

lemma fetchAndFormatTasksForDate_v1_paged:
  "fetchAndFormatTasksForDate_v1 host_east settings_sample service_paged may_1_local =
     ([Request (GetProjects ''token'' 200 None), Notice ''Project {project.name} as color red'']
        @ Request (CompletedByDate ''token'' 1714489200000 1714575599999 100 None)
        # fst (formatTasks host_east project_id id_task (\<lambda>task. Some (content task))
                 (projectsMap [project_work]) may_1_local page_one),
      snd (formatTasks host_east project_id id_task (\<lambda>task. Some (content task))
             (projectsMap [project_work]) may_1_local page_one))"
  using fetchAndFormatTasksForDate_v1_ok [where h = host_east and settings = settings_sample
      and svc = service_paged and targetDate = may_1_local and tasks = page_one,
      OF _ fetchProjectData_v1_paged completed_page_one]
  by (simp add: token_sample window_sample)

theorem completed_fetch_is_one_page_witness:
  "snd (fetchAndFormatTasksForDate_v1 host_east settings_sample service_paged may_1_local)
     = snd (formatTasks host_east project_id id_task (\<lambda>task. Some (content task))
             (projectsMap [project_work]) may_1_local page_one)
   \<and> requests (fst (fetchAndFormatTasksForDate_v1 host_east settings_sample service_paged may_1_local))
       = [GetProjects ''token'' 200 None, CompletedByDate ''token'' 1714489200000 1714575599999 100 None]
   \<and> requests (fst (fetchAndFormatTasksForDate_v9 host_east settings_sample service_old may_1_local))
       = [SyncProjects ''token'', ActivityGet ''token'' 100]"
proof -
  note c = completed_fetch_is_one_page [where h = host_east and settings = settings_sample
      and targetDate = may_1_local
      and ?svc1.0 = service_paged
      and ?es1.0 = "[Request (GetProjects ''token'' 200 None), Notice ''Project {project.name} as color red'']"
      and ?projects1.0 = "projectsMap [project_work]"
      and ?response1.0 = "\<lparr>status = 200, text_resp = [],
          json = Body \<lparr>items = Some page_one, next_cursor_items = Some ''t2''\<rparr>\<rparr>"
      and ?data1.0 = "\<lparr>items = Some page_one, next_cursor_items = Some ''t2''\<rparr>"
      and tasks = page_one
      and ?svc9.0 = service_old
      and ?es9.0 = "[Request (SyncProjects ''token'')]"
      and ?projects9.0 = "projectsMap [project_work]"
      and ?response9.0 = "\<lparr>status = 200, text_resp = [],
                            json = Body \<lparr>events = Some [event_old]\<rparr>\<rparr>"
      and ?data9.0 = "\<lparr>events = Some [event_old]\<rparr>"
      and evs = "[event_old]"]
  have t: "todoistApiToken settings_sample \<noteq> []"
    by (simp add: token_sample)
  have r9: "requestUrl_completed service_old (ActivityGet (todoistApiToken settings_sample) 100)
            = Inr \<lparr>status = 200, text_resp = [], json = Body \<lparr>events = Some [event_old]\<rparr>\<rparr>"
    by (simp add: service_old_def ok_def)
  have v1: "snd (fetchAndFormatTasksForDate_v1 host_east settings_sample service_paged may_1_local)
              = snd (formatTasks host_east project_id id_task (\<lambda>task. Some (content task))
                      (projectsMap [project_work]) may_1_local page_one)
            \<and> \<not> isl (snd (fetchAndFormatTasksForDate_v1 host_east settings_sample service_paged may_1_local))
            \<and> requests (fst (fetchAndFormatTasksForDate_v1 host_east settings_sample service_paged may_1_local))
                = [GetProjects (todoistApiToken settings_sample) 200 None,
                   CompletedByDate (todoistApiToken settings_sample)
                     (startOfDay (utcOffset host_east) may_1_local)
                     (endOfDay (utcOffset host_east) may_1_local) 100 None]"
    using c [THEN conjunct1] t fetchProjectData_v1_paged completed_page_one
    by (simp add: formatTasks_succeeds)
  have v9: "requests (fst (fetchAndFormatTasksForDate_v9 host_east settings_sample service_old may_1_local))
              = [SyncProjects (todoistApiToken settings_sample), ActivityGet (todoistApiToken settings_sample) 100]"
    using c [THEN conjunct2] t fetchProjectData_v9_old r9 by simp
  from v1 v9 show ?thesis
    by (simp add: token_sample window_sample)
qed

text \<open>
  C2 as stated fails on the service that holds 101 completed tasks for the day: the
  first response has 100 items and a cursor, and the fetch succeeds with those 100,
  without an error.
\<close>

theorem completed_fetch_counterexample:
  "requestUrl_completed service_paged (CompletedByDate ''token'' 1714489200000 1714575599999 100 None)
     = ok \<lparr>items = Some page_one, next_cursor_items = Some ''t2''\<rparr>
   \<and> length page_one = 100
   \<and> spec_completed_pages 2 service_paged ''token'' 1714489200000 1714575599999 None
       = page_one @ [task_a]
   \<and> \<not> isl (snd (fetchAndFormatTasksForDate_v1 host_east settings_sample service_paged may_1_local))
   \<and> snd (fetchAndFormatTasksForDate_v1 host_east settings_sample service_paged may_1_local)
       = snd (formatTasks host_east project_id id_task (\<lambda>task. Some (content task))
               (projectsMap [project_work]) may_1_local page_one)"
proof -
  have "requestUrl_completed service_paged (CompletedByDate ''token'' 1714489200000 1714575599999 100 None)
     = ok \<lparr>items = Some page_one, next_cursor_items = Some ''t2''\<rparr>"
    by (simp add: service_paged_def)
  moreover have "length page_one = 100"
    by (simp add: page_one_def)
  moreover have "spec_completed_pages 2 service_paged ''token'' 1714489200000 1714575599999 None
       = page_one @ [task_a]"
    by (simp add: numeral_2_eq_2 service_paged_def ok_def)
  moreover have "\<not> isl (snd (fetchAndFormatTasksForDate_v1 host_east settings_sample service_paged may_1_local))"
    by (simp only: fetchAndFormatTasksForDate_v1_paged snd_conv formatTasks_succeeds not_False_eq_True)
  moreover have "snd (fetchAndFormatTasksForDate_v1 host_east settings_sample service_paged may_1_local)
       = snd (formatTasks host_east project_id id_task (\<lambda>task. Some (content task))
               (projectsMap [project_work]) may_1_local page_one)"
    by (simp only: fetchAndFormatTasksForDate_v1_paged snd_conv)
  ultimately show ?thesis by (intro conjI)
qed

subsection \<open>The day filter\<close>

lemma isSame_day_iff: "isSame_day off this input \<longleftrightarrow> dayOf off input = dayOf off this"
proof -
  have m: "(0::int) < msPerDay" by (simp add: msPerDay_def)
  have "isSame_day off this input
          \<longleftrightarrow> dayOf off this * msPerDay \<le> input + off \<and> input + off < (dayOf off this + 1) * msPerDay"
    by (auto simp: isSame_day_def startOfDay_def endOfDay_def algebra_simps)
  also have "\<dots> \<longleftrightarrow> (input + off) div msPerDay = dayOf off this"
  proof
    assume a: "dayOf off this * msPerDay \<le> input + off \<and> input + off < (dayOf off this + 1) * msPerDay"
    show "(input + off) div msPerDay = dayOf off this"
    proof (rule int_div_pos_eq [where r = "input + off - dayOf off this * msPerDay"])
      show "input + off = msPerDay * dayOf off this + (input + off - dayOf off this * msPerDay)"
        by (simp add: algebra_simps)
      show "0 \<le> input + off - dayOf off this * msPerDay" using a by simp
      show "input + off - dayOf off this * msPerDay < msPerDay" using a by (simp add: algebra_simps)
    qed
  next
    assume b: "(input + off) div msPerDay = dayOf off this"
    have e: "(input + off) div msPerDay * msPerDay + (input + off) mod msPerDay = input + off"
      by simp
    have lo: "0 \<le> (input + off) mod msPerDay" and hi: "(input + off) mod msPerDay < msPerDay"
      using m by simp_all
    have "((input + off) div msPerDay + 1) * msPerDay = (input + off) div msPerDay * msPerDay + msPerDay"
      by (simp add: algebra_simps)
    with e lo hi
    have "(input + off) div msPerDay * msPerDay \<le> input + off
          \<and> input + off < ((input + off) div msPerDay + 1) * msPerDay"
      by linarith
    then show "dayOf off this * msPerDay \<le> input + off \<and> input + off < (dayOf off this + 1) * msPerDay"
      using b by simp
  qed
  finally show ?thesis by (simp add: dayOf_def)
qed

text \<open>
  What the filter of \<^verbatim>\<open>src/main.ts\<close> keeps: the events whose day in UTC is the day in
  UTC of the target instant. That is the target day for an observer in UTC only.
\<close>

lemma completedOnDateEvents_utc_day:
  "event \<in> set (completedOnDateEvents targetMoment evs) \<longleftrightarrow>
     event \<in> set evs \<and> (\<exists>t. event_date event = At t \<and> dayOf 0 t = dayOf 0 targetMoment)"
  by (auto simp: completedOnDateEvents_def isSame_day_iff split: timestamp.splits)

text \<open>
  The window that the other revision sends holds the instants of the target day in
  local time, and no other.
\<close>

lemma window_is_target_day:
  "startOfDay off targetDate \<le> t \<and> t \<le> endOfDay off targetDate \<longleftrightarrow> dayOf off t = dayOf off targetDate"
  using isSame_day_iff [of off targetDate t] by (simp add: isSame_day_def)

lemma fetchProjectData_v9_eve:
  "fetchProjectData_v9 settings_sample service_eve =
     ([Request (SyncProjects ''token'')], Inr (projectsMap [project_work]))"
  by (simp add: fetchProjectData_v9_def settings_sample_def service_eve_def ok_def)

lemma completedOnDateEvents_eve: "completedOnDateEvents may_1_local [event_eve] = [event_eve]"
  by (simp add: completedOnDateEvents_def event_eve_def may_1_local_def isSame_day_def
        startOfDay_def endOfDay_def dayOf_def msPerDay_def)

lemma outputGroups_eve:
  "outputGroups ci_compare (projectsMap [project_work]) parent_project_id [event_eve]
     = [(Some ''1'', [event_eve])]"
  by (simp add: run_defs event_eve_def)

lemma markdownOutput_eve:
  "markdownOutput ci_compare parent_project_id object_id extra_content (projectsMap [project_work])
     ''Today'' [event_eve]
   = ''## Tasks Completed Today'' @ nl @ nl @ ''### Work'' @ nl
     @ ''- [Pay rent](https://todoist.com/showTask?id=7)'' @ nl @ nl"
  unfolding markdownOutput_outputGroups outputGroups_eve
  by (simp add: displayName_def taskLine_def truthy_def projectsMap_def project_work_def event_eve_def)

lemma today_sample: "isSame_day (utcOffset host_east) may_1_local (now host_east)"
  by (simp add: isSame_day_def startOfDay_def endOfDay_def dayOf_def msPerDay_def host_east_def
        may_1_local_def)

text \<open>
  C1 at its failing input, in \<^verbatim>\<open>src/main.ts\<close>. The observer is nine hours east of UTC
  and the note is that of 2024-05-01, so the target instant is 2024-04-30T15:00Z and the
  target day is day 19844 (2024-05-01). The event was completed at 2024-04-30T01:00Z:
  day 19843 (2024-04-30), in local time and in UTC alike. The filter keeps it, and it is
  rendered in a group of the output for 2024-05-01.
\<close>

theorem day_filter_keeps_previous_day:
  "targetDate_v9 host_east (Some ''2024-05-01'') = (may_1_local, ''note filename (2024-05-01)'')
   \<and> dayOf (utcOffset host_east) may_1_local = 19844
   \<and> event_date event_eve = At 1714438800000
   \<and> dayOf (utcOffset host_east) 1714438800000 = 19843
   \<and> dayOf 0 1714438800000 = 19843
   \<and> completedOnDateEvents may_1_local [event_eve] = [event_eve]
   \<and> outputGroups (localeCompare host_east) (projectsMap [project_work]) parent_project_id
        (completedOnDateEvents may_1_local [event_eve])
       = [(Some ''1'', [event_eve])]
   \<and> snd (fetchAndFormatTasksForDate_v9 host_east settings_sample service_eve may_1_local)
       = Inr (''## Tasks Completed Today'' @ nl @ nl @ ''### Work'' @ nl
              @ ''- [Pay rent](https://todoist.com/showTask?id=7)'' @ nl @ nl)"
proof -
  have "targetDate_v9 host_east (Some ''2024-05-01'') = (may_1_local, ''note filename (2024-05-01)'')"
    by code_simp
  moreover have "dayOf (utcOffset host_east) may_1_local = 19844"
    "dayOf (utcOffset host_east) 1714438800000 = 19843" "dayOf 0 1714438800000 = 19843"
    by (simp_all add: dayOf_def msPerDay_def host_east_def may_1_local_def)
  moreover have "event_date event_eve = At 1714438800000"
    by (simp add: event_eve_def)
  moreover have l: "localeCompare host_east = ci_compare"
    by (simp add: host_east_def)
  have "outputGroups (localeCompare host_east) (projectsMap [project_work]) parent_project_id
        (completedOnDateEvents may_1_local [event_eve])
       = [(Some ''1'', [event_eve])]"
    by (simp only: l completedOnDateEvents_eve outputGroups_eve)
  moreover have r: "requestUrl_completed service_eve (ActivityGet (todoistApiToken settings_sample) 100)
            = Inr \<lparr>status = 200, text_resp = [], json = Body \<lparr>events = Some [event_eve]\<rparr>\<rparr>"
    by (simp add: service_eve_def ok_def)
  have "snd (fetchAndFormatTasksForDate_v9 host_east settings_sample service_eve may_1_local)
       = snd (formatTasks host_east parent_project_id object_id extra_content (projectsMap [project_work])
                may_1_local (completedOnDateEvents may_1_local [event_eve]))"
    using fetchAndFormatTasksForDate_v9_ok [where h = host_east and settings = settings_sample
        and svc = service_eve and targetDate = may_1_local and evs = "[event_eve]"
        and data = "\<lparr>events = Some [event_eve]\<rparr>",
        OF _ fetchProjectData_v9_eve r]
    by (simp add: token_sample)
  then have "snd (fetchAndFormatTasksForDate_v9 host_east settings_sample service_eve may_1_local)
       = Inr (''## Tasks Completed Today'' @ nl @ nl @ ''### Work'' @ nl
              @ ''- [Pay rent](https://todoist.com/showTask?id=7)'' @ nl @ nl)"
    by (simp only: completedOnDateEvents_eve formatTasks_nonempty [of "[event_eve]", simplified]
          today_sample if_True l markdownOutput_eve)
  ultimately show ?thesis using completedOnDateEvents_eve by (intro conjI)
qed

subsection \<open>The target date\<close>














end
